theory Spec2Isabelle
  imports Complex_Main "HOL-Library.Sublist" "HOL-Library.Word"
begin

section \<open>Python values\<close>

text \<open>
  A Python \<open>str\<close> is a sequence of Unicode code points, and \<open>len\<close> counts code points,
  so a string is a list of naturals. \<open>u\<close> embeds an ASCII literal of the source.
\<close>

type_synonym ustr = "nat list"

definition u :: "string \<Rightarrow> ustr" where
  "u s = map of_char s"

text \<open>\<open>sub in s\<close> on strings.\<close>

fun contains :: "ustr \<Rightarrow> ustr \<Rightarrow> bool" where
  "contains sub [] = (sub = [])"
| "contains sub (c # cs) = (prefix sub (c # cs) \<or> contains sub cs)"

text \<open>\<open>sep.join(parts)\<close>.\<close>

fun join :: "ustr \<Rightarrow> ustr list \<Rightarrow> ustr" where
  "join sep [] = []"
| "join sep [x] = x"
| "join sep (x # y # ys) = x @ sep @ join sep (y # ys)"

text \<open>
  \<open>str.isspace\<close> of one code point: the characters that \<open>str.strip()\<close> removes from
  both ends when it is called without an argument.
\<close>

definition isspace :: "nat \<Rightarrow> bool" where
  "isspace c \<longleftrightarrow>
     (9 \<le> c \<and> c \<le> 13) \<or> (28 \<le> c \<and> c \<le> 32) \<or> c = 133 \<or> c = 160 \<or> c = 5760 \<or>
     (8192 \<le> c \<and> c \<le> 8202) \<or> c = 8232 \<or> c = 8233 \<or> c = 8239 \<or> c = 8287 \<or> c = 12288"

definition strip :: "ustr \<Rightarrow> ustr" where
  "strip s = rev (dropWhile isspace (rev (dropWhile isspace s)))"

text \<open>The values a metadata dictionary holds, and the dictionary itself.\<close>

datatype pyval =
    PStr ustr
  | PInt int
  | PFloat real
  | PBool bool
  | PList "pyval list"
  | PNone

type_synonym pydict = "ustr \<rightharpoonup> pyval"

text \<open>
  Exceptions carry their message (\<open>str(e)\<close>). An \<open>OSError\<close> raised by a system call is a
  \<open>FileNotFoundError\<close> for \<open>ENOENT\<close>, a \<open>NotADirectoryError\<close> for \<open>ENOTDIR\<close>, a
  \<open>PermissionError\<close> for \<open>EACCES\<close> and \<open>EPERM\<close>, and for any other error number a plain
  \<open>OSError\<close>, which carries the number. \<open>LibraryError\<close> stands for whatever else an external
  library call raises (a codec, the embedding model, a parser).
\<close>

datatype errno = EBADF | ELOOP | ENAMETOOLONG | EIO

datatype exn =
    FileNotFoundError ustr
  | NotADirectoryError ustr
  | PermissionError ustr
  | OSError errno ustr
  | ValueError ustr
  | AttributeError ustr
  | KeyError ustr
  | UnicodeDecodeError ustr
  | LibraryError ustr

fun str_exn :: "exn \<Rightarrow> ustr" where
  "str_exn (FileNotFoundError m) = m"
| "str_exn (NotADirectoryError m) = m"
| "str_exn (PermissionError m) = m"
| "str_exn (OSError n m) = m"
| "str_exn (ValueError m) = m"
| "str_exn (AttributeError m) = m"
| "str_exn (KeyError m) = m"
| "str_exn (UnicodeDecodeError m) = m"
| "str_exn (LibraryError m) = m"

section \<open>chunker.py: LegalChunker\<close>

text \<open>langchain's \<open>Document(page_content, metadata)\<close>.\<close>

record document =
  page_content :: ustr
  metadata :: pydict

text \<open>
  The chunker object. \<open>model\<close> is \<open>self.model\<close>: \<open>None\<close>, or the sentence transformer,
  given by its \<open>encode\<close> method (which may raise). \<open>np_mean\<close> and \<open>cos_sim\<close> are
  \<open>np.mean(_, axis=0)\<close> and \<open>util.cos_sim(_, _).item()\<close> on embeddings of type \<open>'e\<close>;
  \<open>fallback_split_text\<close> is the \<open>split_text\<close> of the
  \<open>RecursiveCharacterTextSplitter(chunk_size=max_chunk_size, chunk_overlap=chunk_overlap)\<close>
  built by \<open>__init__\<close>. These three are library code and stay parameters.
\<close>

record 'e LegalChunker =
  similarity_threshold :: real
  min_chunk_size :: int
  max_chunk_size :: int
  chunk_overlap :: int
  model :: "(ustr list \<Rightarrow> exn + 'e list) option"
  np_mean :: "'e list \<Rightarrow> 'e"
  cos_sim :: "'e \<Rightarrow> 'e \<Rightarrow> real"
  fallback_split_text :: "ustr \<Rightarrow> ustr list"

text \<open>
  \<open>TextSplitter.split_documents\<close> of langchain: every piece of a document's text becomes
  a \<open>Document\<close> holding a copy of that document's metadata (\<open>add_start_index\<close> is off by
  default); nothing else is written to the metadata.
\<close>

definition split_documents :: "(ustr \<Rightarrow> ustr list) \<Rightarrow> document list \<Rightarrow> document list" where
  "split_documents split_text docs =
     concat (map (\<lambda>d. map (\<lambda>piece. \<lparr>page_content = piece, metadata = metadata d\<rparr>)
                          (split_text (page_content d))) docs)"

subsection \<open>\<open>_split_into_sentences\<close>\<close>

definition is_terminator :: "nat \<Rightarrow> bool" where
  "is_terminator c \<longleftrightarrow> c \<in> set (u ''.!?'')"

text \<open>
  \<open>re.split(r'[.!?]+', text)\<close>: the pieces of the text between the maximal runs of
  terminators, empty pieces at the ends included. \<open>piece\<close> is the piece being read.
\<close>

function re_split_from :: "ustr \<Rightarrow> ustr \<Rightarrow> ustr list" where
  "re_split_from piece [] = [piece]"
| "re_split_from piece (c # cs) =
     (if is_terminator c then piece # re_split_from [] (dropWhile is_terminator cs)
      else re_split_from (piece @ [c]) cs)"
  by pat_completeness auto
termination
  by (relation "measure (\<lambda>(piece, cs). length cs)")
     (auto simp: length_dropWhile_le less_Suc_eq_le)

definition re_split_terminators :: "ustr \<Rightarrow> ustr list" where
  "re_split_terminators txt = re_split_from [] txt"

definition split_into_sentences :: "ustr \<Rightarrow> ustr list" where
  "split_into_sentences txt =
     (let sentences = re_split_terminators txt
      in map strip (filter (\<lambda>s. strip s \<noteq> []) sentences))"

subsection \<open>\<open>_group_sentences_semantically\<close>\<close>

text \<open>
  The loop state is \<open>(chunks, current_chunk, current_chunk_embeddings)\<close>; \<open>group_step\<close> is
  the loop body for one \<open>(sentence, embedding)\<close> of \<open>zip(sentences, embeddings)\<close>.
\<close>

type_synonym 'e group_state = "ustr list \<times> ustr list \<times> 'e list"

definition group_step ::
  "('e, 'x) LegalChunker_scheme \<Rightarrow> 'e group_state \<Rightarrow> ustr \<times> 'e \<Rightarrow> 'e group_state" where
  "group_step self st se =
     (case st of (chunks, current_chunk, current_chunk_embeddings) \<Rightarrow>
      case se of (sentence, embedding) \<Rightarrow>
        if current_chunk = [] then
          (chunks, current_chunk @ [sentence], current_chunk_embeddings @ [embedding])
        else
          let current_chunk_embedding = np_mean self current_chunk_embeddings;
              similarity = cos_sim self embedding current_chunk_embedding;
              should_start_new =
                (similarity < similarity_threshold self \<or>
                 int (length (join (u '' '') current_chunk)) > max_chunk_size self)
          in if should_start_new \<and> current_chunk \<noteq> [] then
               (chunks @ [join (u '' '') current_chunk], [sentence], [embedding])
             else
               (chunks, current_chunk @ [sentence], current_chunk_embeddings @ [embedding]))"

definition group_sentences_semantically ::
  "('e, 'x) LegalChunker_scheme \<Rightarrow> ustr list \<Rightarrow> 'e list \<Rightarrow> ustr list" where
  "group_sentences_semantically self sentences embeddings =
     (case foldl (group_step self) ([], [], []) (zip sentences embeddings) of
        (chunks, current_chunk, current_chunk_embeddings) \<Rightarrow>
          if current_chunk \<noteq> [] then chunks @ [join (u '' '') current_chunk] else chunks)"

subsection \<open>\<open>_semantic_chunk\<close>, \<open>_semantic_chunk_original\<close>, \<open>chunk_document\<close>\<close>

text \<open>
  The conversion loop \<open>for i, chunk_text in enumerate(chunks)\<close>: \<open>i\<close> is the index the loop
  has reached, \<open>extra\<close> the dictionary passed to \<open>chunk_metadata.update\<close> for index \<open>i\<close>.
\<close>

fun convert_chunks ::
  "int \<Rightarrow> pydict \<Rightarrow> (nat \<Rightarrow> pydict) \<Rightarrow> nat \<Rightarrow> ustr list \<Rightarrow> document list" where
  "convert_chunks min_size md extra i [] = []"
| "convert_chunks min_size md extra i (chunk_text # rest) =
     (if int (length (strip chunk_text)) \<ge> min_size
      then [\<lparr>page_content = chunk_text, metadata = md ++ extra i\<rparr>]
      else [])
     @ convert_chunks min_size md extra (Suc i) rest"

definition semantic_update :: "nat \<Rightarrow> nat \<Rightarrow> pydict" where
  "semantic_update n_chunks i =
     [u ''chunk_index'' \<mapsto> PInt (int i),
      u ''chunking_method'' \<mapsto> PStr (u ''semantic''),
      u ''total_chunks'' \<mapsto> PInt (int n_chunks)]"

definition semantic_original_update :: "real \<Rightarrow> nat \<Rightarrow> nat \<Rightarrow> pydict" where
  "semantic_original_update threshold n_chunks i =
     [u ''chunk_index'' \<mapsto> PInt (int i),
      u ''chunking_method'' \<mapsto> PStr (u ''semantic_original''),
      u ''total_chunks'' \<mapsto> PInt (int n_chunks),
      u ''similarity_threshold'' \<mapsto> PFloat threshold]"

text \<open>\<open>self.model.encode(sentences)\<close>; on \<open>None\<close> the attribute access raises.\<close>

definition model_encode ::
  "('e, 'x) LegalChunker_scheme \<Rightarrow> ustr list \<Rightarrow> exn + 'e list" where
  "model_encode self sentences =
     (case model self of
        None \<Rightarrow> Inl (AttributeError (u ''NoneType object has no attribute encode''))
      | Some encode \<Rightarrow> encode sentences)"

definition semantic_chunk ::
  "('e, 'x) LegalChunker_scheme \<Rightarrow> document \<Rightarrow> exn + document list" where
  "semantic_chunk self doc =
     (let txt = page_content doc; md = metadata doc;
          sentences = split_into_sentences txt
      in if length sentences < 2 then Inr [\<lparr>page_content = txt, metadata = md\<rparr>]
         else case model_encode self sentences of
                Inl e \<Rightarrow> Inl e
              | Inr embeddings \<Rightarrow>
                  let chunks = group_sentences_semantically self sentences embeddings
                  in Inr (convert_chunks (min_chunk_size self) md
                            (semantic_update (length chunks)) 0 chunks))"

text \<open>
  \<open>_semantic_chunk_original\<close> repeats the grouping loop inline, statement for statement;
  the model calls the same function for it.
\<close>

definition semantic_chunk_original ::
  "('e, 'x) LegalChunker_scheme \<Rightarrow> document \<Rightarrow> exn + document list" where
  "semantic_chunk_original self doc =
     (let txt = page_content doc; md = metadata doc;
          sentences = split_into_sentences txt
      in if length sentences < 2 then Inr [\<lparr>page_content = txt, metadata = md\<rparr>]
         else case model_encode self sentences of
                Inl e \<Rightarrow> Inl e
              | Inr embeddings \<Rightarrow>
                  let chunks = group_sentences_semantically self sentences embeddings
                  in Inr (convert_chunks (min_chunk_size self) md
                            (semantic_original_update (similarity_threshold self) (length chunks))
                            0 chunks))"

definition fallback_chunker :: "('e, 'x) LegalChunker_scheme \<Rightarrow> document list \<Rightarrow> document list" where
  "fallback_chunker self docs = split_documents (fallback_split_text self) docs"

definition chunk_document :: "('e, 'x) LegalChunker_scheme \<Rightarrow> document \<Rightarrow> document list" where
  "chunk_document self doc =
     (if model self = None then fallback_chunker self [doc]
      else case semantic_chunk self doc of
             Inr chunks \<Rightarrow> chunks
           | Inl e \<Rightarrow> fallback_chunker self [doc])"

definition chunk_document_semantic ::
  "('e, 'x) LegalChunker_scheme \<Rightarrow> document \<Rightarrow> document list" where
  "chunk_document_semantic self doc =
     (if model self = None then fallback_chunker self [doc]
      else case semantic_chunk_original self doc of
             Inr chunks \<Rightarrow> chunks
           | Inl e \<Rightarrow> fallback_chunker self [doc])"

section \<open>Strings, bytes and paths\<close>

definition nl :: ustr where
  "nl = [10]"

text \<open>\<open>str(n)\<close> of a non-negative integer.\<close>

function str_nat :: "nat \<Rightarrow> ustr" where
  "str_nat n = (if n < 10 then [48 + n] else str_nat (n div 10) @ [48 + n mod 10])"
  by pat_completeness auto
termination
  by (relation "measure (\<lambda>n. n)") auto

declare str_nat.simps [simp del]

text \<open>\<open>s.endswith(suffix)\<close>.\<close>

definition endswith :: "ustr \<Rightarrow> ustr \<Rightarrow> bool" where
  "endswith s suf \<longleftrightarrow> length suf \<le> length s \<and> drop (length s - length suf) s = suf"

text \<open>
  \<open>str.lower()\<close> on the ASCII letters. The results are only compared with ASCII
  literals that hold neither \<open>k\<close> nor an \<open>i\<close> followed by a combining dot, the only
  ASCII letters a non-ASCII character lower-cases to, so the comparisons come out as in
  Python.
\<close>

definition lower :: "ustr \<Rightarrow> ustr" where
  "lower s = map (\<lambda>c. if 65 \<le> c \<and> c \<le> 90 then c + 32 else c) s"

text \<open>\<open>s.strip('.')\<close>.\<close>

definition strip_dots :: "ustr \<Rightarrow> ustr" where
  "strip_dots s = rev (dropWhile (\<lambda>c. c = 46) (rev (dropWhile (\<lambda>c. c = 46) s)))"

text \<open>
  A path is given by \<open>str(path)\<close>. \<open>Path.name\<close> is the last component; \<open>Path.suffix\<close>
  is the name from its last dot on, when that dot is neither the first nor the last
  character of the name (pathlib: \<open>i = name.rfind('.')\<close>, \<open>0 < i < len(name) - 1\<close>).
\<close>

definition path_name :: "ustr \<Rightarrow> ustr" where
  "path_name p = rev (takeWhile (\<lambda>c. c \<noteq> 47) (rev p))"

definition path_suffix :: "ustr \<Rightarrow> ustr" where
  "path_suffix p =
     (let name = path_name p;
          after_dot = rev (takeWhile (\<lambda>c. c \<noteq> 46) (rev name))
      in if 46 \<notin> set name then []
         else let i = length name - length after_dot - 1
              in if 0 < i \<and> i < length name - 1 then drop i name else [])"

type_synonym bytes = "8 word list"

text \<open>
  \<open>bytes.decode('utf-8', errors=...)\<close>. In mode \<open>Strict\<close> the first ill-formed sequence
  raises \<open>UnicodeDecodeError\<close>; in mode \<open>Ignore\<close> the offending byte is dropped and
  decoding goes on behind it.
\<close>

datatype errors_mode = Strict | Ignore

definition is_cont :: "nat \<Rightarrow> bool" where
  "is_cont b \<longleftrightarrow> 128 \<le> b \<and> b \<le> 191"

fun utf8_decode :: "errors_mode \<Rightarrow> nat list \<Rightarrow> exn + ustr" where
  "utf8_decode mode [] = Inr []"
| "utf8_decode mode (b # bs) =
     (let bad = (if mode = Strict
                 then Inl (UnicodeDecodeError (u ''utf-8 codec cannot decode byte''))
                 else utf8_decode mode bs)
      in if b < 128 then map_sum id ((#) b) (utf8_decode mode bs)
         else if 194 \<le> b \<and> b \<le> 223 then
           (case bs of
              c1 # r \<Rightarrow>
                if is_cont c1
                then map_sum id ((#) ((b - 192) * 64 + (c1 - 128))) (utf8_decode mode r)
                else bad
            | _ \<Rightarrow> bad)
         else if 224 \<le> b \<and> b \<le> 239 then
           (case bs of
              c1 # c2 # r \<Rightarrow>
                if is_cont c1 \<and> is_cont c2 \<and> (if b = 224 then 160 \<le> c1 else True) \<and> (if b = 237 then c1 \<le> 159 else True)
                then map_sum id ((#) ((b - 224) * 4096 + (c1 - 128) * 64 + (c2 - 128)))
                       (utf8_decode mode r)
                else bad
            | _ \<Rightarrow> bad)
         else if 240 \<le> b \<and> b \<le> 244 then
           (case bs of
              c1 # c2 # c3 # r \<Rightarrow>
                if is_cont c1 \<and> is_cont c2 \<and> is_cont c3 \<and>
                   (if b = 240 then 144 \<le> c1 else True) \<and> (if b = 244 then c1 \<le> 143 else True)
                then map_sum id ((#) ((b - 240) * 262144 + (c1 - 128) * 4096 +
                                      (c2 - 128) * 64 + (c3 - 128)))
                       (utf8_decode mode r)
                else bad
            | _ \<Rightarrow> bad)
         else bad)"

definition decode :: "bytes \<Rightarrow> errors_mode \<Rightarrow> exn + ustr" where
  "decode content mode = utf8_decode mode (map unat content)"

section \<open>Processor results and the world a processor sees\<close>

text \<open>The dictionary every processor returns.\<close>

record processed =
  raw_content :: ustr
  url :: ustr
  enhanced_processing :: bool
  result_metadata :: pydict

text \<open>
  An opened \<open>ZipFile\<close> or \<open>RarFile\<close>: \<open>namelist()\<close>, and by name \<open>getinfo(name)\<close> (absent:
  \<open>KeyError\<close>) with its \<open>file_size\<close> and the outcome of \<open>open(name).read()\<close>.
\<close>

record member =
  file_size :: nat
  payload :: "exn + bytes"

record archive =
  namelist :: "ustr list"
  getinfo :: "ustr \<rightharpoonup> member"

text \<open>
  An opened \<open>TarFile\<close>: \<open>getnames()\<close>, and by name \<open>getmember(name)\<close> with its \<open>size\<close> and
  the outcome of \<open>extractfile(name)\<close> and \<open>read()\<close>; \<open>extractfile\<close> returns \<open>None\<close> for a
  member that is not a regular file.
\<close>

record tar_member =
  member_size :: nat
  extractfile :: "exn + bytes option"

record tar_archive =
  getnames :: "ustr list"
  getmember :: "ustr \<rightharpoonup> tar_member"

text \<open>
  What \<open>_process_eml_file\<close> reads off a parsed message through \<open>_decode_header\<close>,
  \<open>_extract_email_body\<close> and \<open>_extract_attachments\<close>, and the messages
  \<open>_extract_pst_messages\<close> collects from a mail store.
\<close>

record attachment =
  att_filename :: ustr
  att_content_type :: ustr
  att_content :: ustr
  att_size :: nat

record eml =
  subject :: ustr
  sender :: ustr
  recipient :: ustr
  date :: ustr
  body :: ustr
  attachments :: "attachment list"

record pst_message =
  msg_subject :: ustr
  msg_sender :: ustr
  msg_recipient :: ustr
  msg_date :: ustr
  msg_body :: ustr

text \<open>
  What the file system and the libraries answer for one path, each answer a value or the
  exception raised: \<open>stat().st_size\<close>, \<open>read_text(encoding='utf-8', errors='ignore')\<close>,
  \<open>open(path, 'rb').read()\<close>, opening the file as a ZIP, a RAR or (in a given mode) a TAR
  archive, parsing it as an e-mail message, reading it as a mail store, the rich PDF and
  image extraction of \<open>LegalDocumentProcessor\<close>, building its table of generic loaders
  and loading the pages with the one chosen; and \<open>datetime.now().isoformat()\<close>.
\<close>

record file_env =
  stat_size :: "exn + nat"
  read_text :: "exn + ustr"
  read_bytes :: "exn + bytes"
  zip_file :: "exn + archive"
  rar_file :: "exn + archive"
  tar_file :: "ustr \<Rightarrow> exn + tar_archive"
  eml_message :: "exn + eml"
  pst_file :: "exn + pst_message list"
  pdf_enhanced :: "exn + processed"
  image_enhanced :: "exn + processed"
  loader_dict :: "exn option"
  loader_load :: "exn + ustr list"
  now_isoformat :: ustr

text \<open>
  \<open>Path.exists()\<close> calls \<open>stat\<close>. An \<open>OSError\<close> whose error number is \<open>ENOENT\<close>, \<open>ENOTDIR\<close>,
  \<open>EBADF\<close> or \<open>ELOOP\<close> (\<open>pathlib._ignore_error\<close>) means that the path does not exist, and so
  does a \<open>ValueError\<close> (a path that cannot be encoded); any other exception is raised again,
  for instance the \<open>PermissionError\<close> of a directory that may not be searched. (This is
  \<open>pathlib\<close> up to Python 3.13.)
\<close>

fun ignore_error :: "exn \<Rightarrow> bool" where
  "ignore_error (FileNotFoundError m) = True"
| "ignore_error (NotADirectoryError m) = True"
| "ignore_error (OSError n m) = (n = EBADF \<or> n = ELOOP)"
| "ignore_error e = False"

definition path_exists :: "file_env \<Rightarrow> exn + bool" where
  "path_exists env =
     (case stat_size env of
        Inr st \<Rightarrow> Inr True
      | Inl e \<Rightarrow>
          if ignore_error e then Inr False
          else (case e of ValueError m \<Rightarrow> Inr False | _ \<Rightarrow> Inl e))"

text \<open>The module-level availability flags set by the guarded imports.\<close>

record capabilities =
  ZIP_PROCESSING_AVAILABLE :: bool
  RAR_PROCESSING_AVAILABLE :: bool
  EMAIL_PROCESSING_AVAILABLE :: bool
  PST_PROCESSING_AVAILABLE :: bool

section \<open>archive_processor.py: ArchiveProcessor\<close>

subsection \<open>\<open>_fallback_processing\<close>\<close>

text \<open>
  The \<open>try\<close> reads the text and then the size; the handler builds the error record and
  reads the size once more, outside any \<open>try\<close>. \<open>EmailProcessor._fallback_processing\<close>
  is the same function, word for word.
\<close>

definition fallback_processing :: "file_env \<Rightarrow> ustr \<Rightarrow> ustr \<Rightarrow> exn + processed" where
  "fallback_processing env file_path reason =
     (case (case read_text env of
              Inl e \<Rightarrow> Inl e
            | Inr content \<Rightarrow>
                (case stat_size env of
                   Inl e \<Rightarrow> Inl e
                 | Inr st_size \<Rightarrow>
                     Inr \<lparr>raw_content = content,
                          url = file_path,
                          enhanced_processing = False,
                          result_metadata =
                            [u ''file_type'' \<mapsto> PStr (lower (path_suffix file_path)),
                             u ''processing_method'' \<mapsto> PStr (u ''fallback''),
                             u ''reason'' \<mapsto> PStr reason,
                             u ''file_size'' \<mapsto> PInt (int st_size),
                             u ''processed_at'' \<mapsto> PStr (now_isoformat env)]\<rparr>)) of
        Inr result \<Rightarrow> Inr result
      | Inl e \<Rightarrow>
          (case stat_size env of
             Inl e' \<Rightarrow> Inl e'
           | Inr st_size \<Rightarrow>
               Inr \<lparr>raw_content = u ''Could not process '' @ path_name file_path @ u '': '' @ reason,
                    url = file_path,
                    enhanced_processing = False,
                    result_metadata =
                      [u ''file_type'' \<mapsto> PStr (lower (path_suffix file_path)),
                       u ''processing_method'' \<mapsto> PStr (u ''error''),
                       u ''error'' \<mapsto> PStr (str_exn e),
                       u ''file_size'' \<mapsto> PInt (int st_size),
                       u ''processed_at'' \<mapsto> PStr (now_isoformat env)]\<rparr>))"

subsection \<open>The entry loops\<close>

text \<open>An element of \<open>extracted_content\<close>.\<close>

record item =
  item_filename :: ustr
  item_content :: ustr
  item_size :: nat
  item_type :: ustr

text \<open>
  The body of \<open>for file_name in file_list\<close> in \<open>_process_zip_file\<close> and
  \<open>_process_rar_file\<close> (the two are the same), on the state
  \<open>(extracted_content, total_size)\<close>. Whatever the inner \<open>try\<close> raises ends the iteration
  (\<open>continue\<close>); \<open>total_size\<close> has been increased by then if \<open>getinfo\<close> succeeded.
\<close>

definition entry_step :: "archive \<Rightarrow> item list \<times> nat \<Rightarrow> ustr \<Rightarrow> item list \<times> nat" where
  "entry_step zip_ref st file_name =
     (case st of (extracted_content, total_size) \<Rightarrow>
        if endswith file_name (u ''/'') then (extracted_content, total_size)
        else case getinfo zip_ref file_name of
               None \<Rightarrow> (extracted_content, total_size)
             | Some file_info \<Rightarrow>
                 let file_size = file_size file_info;
                     total_size = total_size + file_size
                 in case payload file_info of
                      Inl e \<Rightarrow> (extracted_content, total_size)
                    | Inr content \<Rightarrow>
                        (case decode content Ignore of
                           Inr text_content \<Rightarrow>
                             (extracted_content @
                                [\<lparr>item_filename = file_name, item_content = text_content,
                                  item_size = file_size, item_type = u ''text''\<rparr>],
                              total_size)
                         | Inl e \<Rightarrow>
                             (extracted_content @
                                [\<lparr>item_filename = file_name,
                                  item_content = u ''[Binary file: '' @ file_name @ u '']'',
                                  item_size = file_size, item_type = u ''binary''\<rparr>],
                              total_size)))"

text \<open>
  The same loop body in \<open>_process_tar_file\<close>: \<open>with tar_ref.extractfile(file_name) as file\<close>
  raises on \<open>None\<close>, which ends the iteration like any other exception.
\<close>

definition tar_entry_step :: "tar_archive \<Rightarrow> item list \<times> nat \<Rightarrow> ustr \<Rightarrow> item list \<times> nat" where
  "tar_entry_step tar_ref st file_name =
     (case st of (extracted_content, total_size) \<Rightarrow>
        if endswith file_name (u ''/'') then (extracted_content, total_size)
        else case getmember tar_ref file_name of
               None \<Rightarrow> (extracted_content, total_size)
             | Some file_info \<Rightarrow>
                 let file_size = member_size file_info;
                     total_size = total_size + file_size
                 in case extractfile file_info of
                      Inl e \<Rightarrow> (extracted_content, total_size)
                    | Inr None \<Rightarrow> (extracted_content, total_size)
                    | Inr (Some content) \<Rightarrow>
                        (case decode content Ignore of
                           Inr text_content \<Rightarrow>
                             (extracted_content @
                                [\<lparr>item_filename = file_name, item_content = text_content,
                                  item_size = file_size, item_type = u ''text''\<rparr>],
                              total_size)
                         | Inl e \<Rightarrow>
                             (extracted_content @
                                [\<lparr>item_filename = file_name,
                                  item_content = u ''[Binary file: '' @ file_name @ u '']'',
                                  item_size = file_size, item_type = u ''binary''\<rparr>],
                              total_size)))"

subsection \<open>The formatted document and the record\<close>

definition format_item :: "item \<Rightarrow> ustr" where
  "format_item it =
     nl @ u ''FILE: '' @ item_filename it @ nl @
     u ''Size: '' @ str_nat (item_size it) @ u '' bytes'' @ nl @
     u ''Type: '' @ item_type it @ nl @
     u ''Content:'' @ nl @ item_content it @ nl @
     replicate 50 45 @ nl"

text \<open>
  The three \<open>_process_*_file\<close> methods build the document and the record with the same
  statements; they differ in the heading (\<open>ZIP\<close>, \<open>RAR\<close>, \<open>TAR\<close>) and in \<open>file_type\<close>.
  The size is read inside the \<open>try\<close>, so a failing \<open>stat\<close> is an exception of the \<open>try\<close>.
\<close>

definition archive_record ::
  "ustr \<Rightarrow> ustr \<Rightarrow> file_env \<Rightarrow> ustr \<Rightarrow> ustr list \<Rightarrow> item list \<times> nat \<Rightarrow> exn + processed" where
  "archive_record heading ftype env file_path file_list st =
     (case st of (extracted_content, total_size) \<Rightarrow>
        let formatted_content =
              nl @ heading @ u '' ARCHIVE CONTENTS'' @ nl @
              u ''==================='' @ nl @
              u ''Archive: '' @ path_name file_path @ nl @
              u ''Files: '' @ str_nat (length file_list) @ nl @
              u ''Total Size: '' @ str_nat total_size @ u '' bytes'' @ nl @ nl @
              concat (map format_item extracted_content)
        in case stat_size env of
             Inl e \<Rightarrow> Inl e
           | Inr st_size \<Rightarrow>
               Inr \<lparr>raw_content = formatted_content,
                    url = file_path,
                    enhanced_processing = True,
                    result_metadata =
                      [u ''file_type'' \<mapsto> PStr ftype,
                       u ''processing_method'' \<mapsto> PStr (u ''archive_extraction''),
                       u ''file_count'' \<mapsto> PInt (int (length file_list)),
                       u ''total_size'' \<mapsto> PInt (int total_size),
                       u ''extracted_files'' \<mapsto> PList (map (\<lambda>it. PStr (item_filename it)) extracted_content),
                       u ''file_size'' \<mapsto> PInt (int st_size),
                       u ''processed_at'' \<mapsto> PStr (now_isoformat env)]\<rparr>)"

subsection \<open>\<open>_process_zip_file\<close>, \<open>_process_rar_file\<close>, \<open>_process_tar_file\<close>\<close>

text \<open>The body of the \<open>try\<close> statement of each method, and the method.\<close>

definition zip_extraction :: "file_env \<Rightarrow> ustr \<Rightarrow> exn + processed" where
  "zip_extraction env file_path =
     (case zip_file env of
        Inl e \<Rightarrow> Inl e
      | Inr zip_ref \<Rightarrow>
          let file_list = namelist zip_ref
          in archive_record (u ''ZIP'') (u ''zip'') env file_path file_list
               (foldl (entry_step zip_ref) ([], 0) file_list))"

definition process_zip_file :: "capabilities \<Rightarrow> file_env \<Rightarrow> ustr \<Rightarrow> exn + processed" where
  "process_zip_file caps env file_path =
     (if \<not> ZIP_PROCESSING_AVAILABLE caps
      then fallback_processing env file_path (u ''ZIP processing not available'')
      else case zip_extraction env file_path of
             Inr result \<Rightarrow> Inr result
           | Inl e \<Rightarrow>
               fallback_processing env file_path (u ''ZIP processing failed: '' @ str_exn e))"

definition rar_extraction :: "file_env \<Rightarrow> ustr \<Rightarrow> exn + processed" where
  "rar_extraction env file_path =
     (case rar_file env of
        Inl e \<Rightarrow> Inl e
      | Inr rar_ref \<Rightarrow>
          let file_list = namelist rar_ref
          in archive_record (u ''RAR'') (u ''rar'') env file_path file_list
               (foldl (entry_step rar_ref) ([], 0) file_list))"

definition process_rar_file :: "capabilities \<Rightarrow> file_env \<Rightarrow> ustr \<Rightarrow> exn + processed" where
  "process_rar_file caps env file_path =
     (if \<not> RAR_PROCESSING_AVAILABLE caps
      then fallback_processing env file_path (u ''RAR processing not available'')
      else case rar_extraction env file_path of
             Inr result \<Rightarrow> Inr result
           | Inl e \<Rightarrow>
               fallback_processing env file_path (u ''RAR processing failed: '' @ str_exn e))"

definition tar_extraction :: "file_env \<Rightarrow> ustr \<Rightarrow> exn + processed" where
  "tar_extraction env file_path =
     (let mode = (if path_suffix file_path = u ''.gz'' then u ''r:gz''
                  else if path_suffix file_path = u ''.bz2'' then u ''r:bz2''
                  else u ''r'')
      in case tar_file env mode of
           Inl e \<Rightarrow> Inl e
         | Inr tar_ref \<Rightarrow>
             let file_list = getnames tar_ref
             in archive_record (u ''TAR'') (u ''tar'') env file_path file_list
                  (foldl (tar_entry_step tar_ref) ([], 0) file_list))"

definition process_tar_file :: "capabilities \<Rightarrow> file_env \<Rightarrow> ustr \<Rightarrow> exn + processed" where
  "process_tar_file caps env file_path =
     (if \<not> ZIP_PROCESSING_AVAILABLE caps
      then fallback_processing env file_path (u ''TAR processing not available'')
      else case tar_extraction env file_path of
             Inr result \<Rightarrow> Inr result
           | Inl e \<Rightarrow>
               fallback_processing env file_path (u ''TAR processing failed: '' @ str_exn e))"

subsection \<open>\<open>process_archive_file\<close> and \<open>process_archive_files_batch\<close>\<close>

definition process_archive_file ::
  "capabilities \<Rightarrow> (ustr \<Rightarrow> file_env) \<Rightarrow> ustr \<Rightarrow> exn + processed" where
  "process_archive_file caps world file_path =
     (case path_exists (world file_path) of
        Inl e \<Rightarrow> Inl e
      | Inr exists \<Rightarrow>
          if \<not> exists
          then Inl (FileNotFoundError (u ''Archive file not found: '' @ file_path))
          else let file_extension = lower (path_suffix file_path)
               in if file_extension = u ''.zip''
                    then process_zip_file caps (world file_path) file_path
                  else if file_extension = u ''.rar''
                    then process_rar_file caps (world file_path) file_path
                  else if file_extension \<in> set [u ''.tar'', u ''.tar.gz'', u ''.tar.bz2'']
                    then process_tar_file caps (world file_path) file_path
                  else Inl (ValueError (u ''Unsupported archive format: '' @ file_extension)))"

text \<open>
  The record a batch puts in the place of an exception. \<open>asyncio.gather\<close> with
  \<open>return_exceptions=True\<close> returns one outcome per task, in the order of the tasks.
\<close>

definition error_record :: "ustr \<Rightarrow> exn \<Rightarrow> processed" where
  "error_record file_path e =
     \<lparr>raw_content = u ''Error processing '' @ file_path @ u '': '' @ str_exn e,
      url = file_path,
      enhanced_processing = False,
      result_metadata =
        [u ''file_type'' \<mapsto> PStr (lower (path_suffix file_path)),
         u ''processing_method'' \<mapsto> PStr (u ''error''),
         u ''error'' \<mapsto> PStr (str_exn e)]\<rparr>"

definition handle_exceptions :: "ustr list \<Rightarrow> (exn + processed) list \<Rightarrow> processed list" where
  "handle_exceptions file_paths results =
     map (\<lambda>(i, result). case result of
                          Inl e \<Rightarrow> error_record (file_paths ! i) e
                        | Inr r \<Rightarrow> r)
         (enumerate 0 results)"

definition process_archive_files_batch ::
  "capabilities \<Rightarrow> (ustr \<Rightarrow> file_env) \<Rightarrow> ustr list \<Rightarrow> processed list" where
  "process_archive_files_batch caps world file_paths =
     (let results = map (process_archive_file caps world) file_paths
      in handle_exceptions file_paths results)"

section \<open>email_processor.py: EmailProcessor\<close>

subsection \<open>\<open>_extract_text_from_binary\<close>\<close>

text \<open>\<open>re.sub(r'\s+', ' ', text)\<close>: every maximal run of white space becomes one space.\<close>

function collapse_whitespace :: "ustr \<Rightarrow> ustr" where
  "collapse_whitespace [] = []"
| "collapse_whitespace (c # cs) =
     (if isspace c then 32 # collapse_whitespace (dropWhile isspace cs)
      else c # collapse_whitespace cs)"
  by pat_completeness auto
termination
  by (relation "measure length") (auto simp: length_dropWhile_le less_Suc_eq_le)

text \<open>
  The characters \<open>re.sub(r'[^\x20-\x7E\n\r\t]', '', text)\<close> keeps.
\<close>

definition printable :: "nat \<Rightarrow> bool" where
  "printable c \<longleftrightarrow> (32 \<le> c \<and> c \<le> 126) \<or> c = 10 \<or> c = 13 \<or> c = 9"

definition extract_text_from_binary :: "bytes \<Rightarrow> ustr" where
  "extract_text_from_binary content =
     (case decode content Ignore of
        Inr decoded \<Rightarrow> strip (collapse_whitespace (filter printable decoded))
      | Inl e \<Rightarrow> u ''Binary content could not be decoded'')"

subsection \<open>\<open>_process_msg_file\<close>, \<open>_process_eml_file\<close>, \<open>_process_pst_file\<close>\<close>

text \<open>The body of the \<open>try\<close> statement of each method, and the method.\<close>

definition msg_extraction :: "file_env \<Rightarrow> ustr \<Rightarrow> exn + processed" where
  "msg_extraction env file_path =
     (case read_bytes env of
         Inl e \<Rightarrow> Inl e
       | Inr content \<Rightarrow>
           let text_content = extract_text_from_binary content
           in case stat_size env of
                Inl e \<Rightarrow> Inl e
              | Inr st_size \<Rightarrow>
                  Inr \<lparr>raw_content = text_content,
                       url = file_path,
                       enhanced_processing = True,
                       result_metadata =
                         [u ''file_type'' \<mapsto> PStr (u ''msg''),
                          u ''processing_method'' \<mapsto> PStr (u ''email_extraction''),
                          u ''file_size'' \<mapsto> PInt (int st_size),
                          u ''processed_at'' \<mapsto> PStr (now_isoformat env)]\<rparr>)"

definition process_msg_file :: "capabilities \<Rightarrow> file_env \<Rightarrow> ustr \<Rightarrow> exn + processed" where
  "process_msg_file caps env file_path =
     (if \<not> EMAIL_PROCESSING_AVAILABLE caps
      then fallback_processing env file_path (u ''MSG file processing not available'')
      else case msg_extraction env file_path of
             Inr result \<Rightarrow> Inr result
           | Inl e \<Rightarrow>
               fallback_processing env file_path (u ''MSG processing failed: '' @ str_exn e))"

text \<open>The loop \<open>for i, attachment in enumerate(attachments, 1)\<close>.\<close>

fun format_attachments :: "nat \<Rightarrow> attachment list \<Rightarrow> ustr" where
  "format_attachments i [] = []"
| "format_attachments i (a # rest) =
     nl @ u ''Attachment '' @ str_nat i @ u '': '' @ att_filename a @ nl @
     u ''Type: '' @ att_content_type a @ nl @
     u ''Size: '' @ str_nat (att_size a) @ u '' bytes'' @ nl @
     u ''Content:'' @ nl @ att_content a @ nl @
     replicate 50 45 @ nl @
     format_attachments (Suc i) rest"

definition eml_extraction :: "file_env \<Rightarrow> ustr \<Rightarrow> exn + processed" where
  "eml_extraction env file_path =
     (case eml_message env of
         Inl e \<Rightarrow> Inl e
       | Inr msg \<Rightarrow>
           let formatted_content =
                 nl @ u ''EMAIL MESSAGE'' @ nl @ u ''============='' @ nl @
                 u ''Subject: '' @ subject msg @ nl @
                 u ''From: '' @ sender msg @ nl @
                 u ''To: '' @ recipient msg @ nl @
                 u ''Date: '' @ date msg @ nl @ nl @
                 body msg @ nl;
               formatted_content =
                 (if attachments msg \<noteq> []
                  then formatted_content @ nl @ nl @ u ''ATTACHMENTS'' @ nl @
                       u ''==========='' @ nl @ format_attachments 1 (attachments msg)
                  else formatted_content)
           in case stat_size env of
                Inl e \<Rightarrow> Inl e
              | Inr st_size \<Rightarrow>
                  Inr \<lparr>raw_content = formatted_content,
                       url = file_path,
                       enhanced_processing = True,
                       result_metadata =
                         [u ''file_type'' \<mapsto> PStr (u ''eml''),
                          u ''processing_method'' \<mapsto> PStr (u ''email_parsing''),
                          u ''subject'' \<mapsto> PStr (subject msg),
                          u ''sender'' \<mapsto> PStr (sender msg),
                          u ''recipient'' \<mapsto> PStr (recipient msg),
                          u ''date'' \<mapsto> PStr (date msg),
                          u ''attachments'' \<mapsto> PInt (int (length (attachments msg))),
                          u ''attachment_files'' \<mapsto>
                            PList (map (\<lambda>att. PStr (att_filename att)) (attachments msg)),
                          u ''file_size'' \<mapsto> PInt (int st_size),
                          u ''processed_at'' \<mapsto> PStr (now_isoformat env)]\<rparr>)"

definition process_eml_file :: "capabilities \<Rightarrow> file_env \<Rightarrow> ustr \<Rightarrow> exn + processed" where
  "process_eml_file caps env file_path =
     (if \<not> EMAIL_PROCESSING_AVAILABLE caps
      then fallback_processing env file_path (u ''EML file processing not available'')
      else case eml_extraction env file_path of
             Inr result \<Rightarrow> Inr result
           | Inl e \<Rightarrow>
               fallback_processing env file_path (u ''EML processing failed: '' @ str_exn e))"

text \<open>The loop \<open>for i, msg in enumerate(messages, 1)\<close>.\<close>

fun format_messages :: "nat \<Rightarrow> pst_message list \<Rightarrow> ustr" where
  "format_messages i [] = []"
| "format_messages i (m # rest) =
     u ''MESSAGE '' @ str_nat i @ nl @
     replicate 20 45 @ nl @
     u ''Subject: '' @ msg_subject m @ nl @
     u ''From: '' @ msg_sender m @ nl @
     u ''To: '' @ msg_recipient m @ nl @
     u ''Date: '' @ msg_date m @ nl @
     u ''Body: '' @ msg_body m @ nl @ nl @
     format_messages (Suc i) rest"

definition pst_extraction :: "file_env \<Rightarrow> ustr \<Rightarrow> exn + processed" where
  "pst_extraction env file_path =
     (case pst_file env of
         Inl e \<Rightarrow> Inl e
       | Inr messages \<Rightarrow>
           let formatted_content =
                 u ''OUTLOOK PST FILE - ALL MESSAGES'' @ nl @
                 replicate 50 61 @ nl @ nl @
                 format_messages 1 messages
           in case stat_size env of
                Inl e \<Rightarrow> Inl e
              | Inr st_size \<Rightarrow>
                  Inr \<lparr>raw_content = formatted_content,
                       url = file_path,
                       enhanced_processing = True,
                       result_metadata =
                         [u ''file_type'' \<mapsto> PStr (u ''pst''),
                          u ''processing_method'' \<mapsto> PStr (u ''pst_extraction''),
                          u ''message_count'' \<mapsto> PInt (int (length messages)),
                          u ''file_size'' \<mapsto> PInt (int st_size),
                          u ''processed_at'' \<mapsto> PStr (now_isoformat env)]\<rparr>)"

definition process_pst_file :: "capabilities \<Rightarrow> file_env \<Rightarrow> ustr \<Rightarrow> exn + processed" where
  "process_pst_file caps env file_path =
     (if \<not> PST_PROCESSING_AVAILABLE caps
      then fallback_processing env file_path (u ''PST file processing not available'')
      else case pst_extraction env file_path of
             Inr result \<Rightarrow> Inr result
           | Inl e \<Rightarrow>
               fallback_processing env file_path (u ''PST processing failed: '' @ str_exn e))"

subsection \<open>\<open>process_email_file\<close> and \<open>process_email_files_batch\<close>\<close>

definition process_email_file ::
  "capabilities \<Rightarrow> (ustr \<Rightarrow> file_env) \<Rightarrow> ustr \<Rightarrow> exn + processed" where
  "process_email_file caps world file_path =
     (case path_exists (world file_path) of
        Inl e \<Rightarrow> Inl e
      | Inr exists \<Rightarrow>
          if \<not> exists
          then Inl (FileNotFoundError (u ''Email file not found: '' @ file_path))
          else let file_extension = lower (path_suffix file_path)
               in if file_extension = u ''.msg''
                    then process_msg_file caps (world file_path) file_path
                  else if file_extension = u ''.eml''
                    then process_eml_file caps (world file_path) file_path
                  else if file_extension = u ''.pst''
                    then process_pst_file caps (world file_path) file_path
                  else Inl (ValueError (u ''Unsupported email format: '' @ file_extension)))"

definition process_email_files_batch ::
  "capabilities \<Rightarrow> (ustr \<Rightarrow> file_env) \<Rightarrow> ustr list \<Rightarrow> processed list" where
  "process_email_files_batch caps world file_paths =
     (let results = map (process_email_file caps world) file_paths
      in handle_exceptions file_paths results)"

section \<open>document_processor.py: LegalDocumentProcessor\<close>

definition image_exts :: "ustr list" where
  "image_exts =
     [u ''.jpg'', u ''.jpeg'', u ''.png'', u ''.bmp'', u ''.tiff'', u ''.tif'',
      u ''.webp'', u ''.svg'', u ''.eps'', u ''.raw'', u ''.cr2'', u ''.nef'',
      u ''.orf'', u ''.sr2'', u ''.gif'']"

text \<open>
  \<open>_process_with_gpt_researcher\<close>: the table of loaders is built first (all nine
  constructors run), then the loader for the extension is looked up. Every exception is
  logged and raised again.
\<close>

definition process_with_gpt_researcher :: "file_env \<Rightarrow> ustr \<Rightarrow> exn + processed" where
  "process_with_gpt_researcher env file_path =
     (let file_extension = strip_dots (lower (path_suffix file_path))
      in case loader_dict env of
           Some e \<Rightarrow> Inl e
         | None \<Rightarrow>
             if file_extension \<in> set [u ''pdf'', u ''txt'', u ''doc'', u ''docx'', u ''pptx'',
                                       u ''csv'', u ''xls'', u ''xlsx'', u ''md'']
             then case loader_load env of
                    Inl e \<Rightarrow> Inl e
                  | Inr pages \<Rightarrow>
                      Inr \<lparr>raw_content = join nl (filter (\<lambda>page_content. page_content \<noteq> []) pages),
                           url = path_name file_path,
                           enhanced_processing = False,
                           result_metadata =
                             [u ''file_type'' \<mapsto> PStr file_extension,
                              u ''processing_method'' \<mapsto> PStr (u ''gpt_researcher'')]\<rparr>
             else Inl (ValueError (u ''Unsupported file type: '' @ file_extension)))"

definition process_pdf_enhanced :: "file_env \<Rightarrow> ustr \<Rightarrow> exn + processed" where
  "process_pdf_enhanced env file_path =
     (case pdf_enhanced env of
        Inr result \<Rightarrow> Inr result
      | Inl e \<Rightarrow> process_with_gpt_researcher env file_path)"

definition process_image_enhanced :: "file_env \<Rightarrow> ustr \<Rightarrow> exn + processed" where
  "process_image_enhanced env file_path =
     (case image_enhanced env of
        Inr result \<Rightarrow> Inr result
      | Inl e \<Rightarrow> process_with_gpt_researcher env file_path)"

definition process_document :: "(ustr \<Rightarrow> file_env) \<Rightarrow> ustr \<Rightarrow> exn + processed" where
  "process_document world file_path =
     (let file_extension = lower (path_suffix file_path)
      in if file_extension = u ''.pdf'' then process_pdf_enhanced (world file_path) file_path
         else if file_extension \<in> set image_exts
           then process_image_enhanced (world file_path) file_path
         else process_with_gpt_researcher (world file_path) file_path)"

text \<open>
  \<open>process_documents_batch\<close> returns what \<open>asyncio.gather(*tasks, return_exceptions=True)\<close>
  returns: for each path, in order, the record or the exception object itself.
\<close>

definition process_documents_batch ::
  "(ustr \<Rightarrow> file_env) \<Rightarrow> ustr list \<Rightarrow> (exn + processed) list" where
  "process_documents_batch world file_paths = map (process_document world) file_paths"

section \<open>Test doubles for the library parameters\<close>

text \<open>
  Concrete stand-ins for the external libraries, used to run the chunker on concrete
  documents: the embedding of a sentence is its first code point, the mean of a chunk is
  its first embedding, two embeddings have similarity 1 when equal and 0 otherwise, and
  the fallback splitter returns the text as one piece.
\<close>

definition toy_encode :: "ustr list \<Rightarrow> exn + int list" where
  "toy_encode sentences = Inr (map (\<lambda>s. case s of [] \<Rightarrow> 0 | c # _ \<Rightarrow> int c) sentences)"

definition toy_mean :: "int list \<Rightarrow> int" where
  "toy_mean es = (case es of [] \<Rightarrow> 0 | e # _ \<Rightarrow> e)"

definition toy_cos_sim :: "int \<Rightarrow> int \<Rightarrow> real" where
  "toy_cos_sim a b = (if a = b then 1 else 0)"

definition toy_split_text :: "ustr \<Rightarrow> ustr list" where
  "toy_split_text txt = [txt]"

definition toy_chunker :: "int \<Rightarrow> int \<Rightarrow> int LegalChunker" where
  "toy_chunker min_size max_size =
     \<lparr>similarity_threshold = 0.75, min_chunk_size = min_size, max_chunk_size = max_size,
      chunk_overlap = 100, model = Some toy_encode, np_mean = toy_mean,
      cos_sim = toy_cos_sim, fallback_split_text = toy_split_text\<rparr>"

text \<open>
  \<open>LegalChunker(similarity_threshold=0.75, min_chunk_size=1, max_chunk_size=10,
  chunk_overlap=2)\<close>: the constructor builds the fallback splitter with \<open>chunk_size=10\<close> and
  \<open>chunk_overlap=2\<close>, sizes the splitter accepts (a positive chunk size, an overlap that is
  not negative and not larger than the chunk size).
\<close>

definition small_chunker :: "int LegalChunker" where
  "small_chunker =
     \<lparr>similarity_threshold = 0.75, min_chunk_size = 1, max_chunk_size = 10,
      chunk_overlap = 2, model = Some toy_encode, np_mean = toy_mean,
      cos_sim = toy_cos_sim, fallback_split_text = toy_split_text\<rparr>"

text \<open>An embedding model whose \<open>encode\<close> raises.\<close>

definition failing_encode :: "ustr list \<Rightarrow> exn + int list" where
  "failing_encode sentences = Inl (LibraryError (u ''CUDA out of memory''))"

definition plain_doc :: "ustr \<Rightarrow> document" where
  "plain_doc txt = \<lparr>page_content = txt, metadata = Map.empty\<rparr>"

definition all_caps :: capabilities where
  "all_caps = \<lparr>ZIP_PROCESSING_AVAILABLE = True, RAR_PROCESSING_AVAILABLE = True,
               EMAIL_PROCESSING_AVAILABLE = True, PST_PROCESSING_AVAILABLE = True\<rparr>"

text \<open>A path with no file behind it: every access raises.\<close>

definition no_file :: file_env where
  "no_file =
     \<lparr>stat_size = Inl (FileNotFoundError (u ''No such file or directory'')),
      read_text = Inl (FileNotFoundError (u ''No such file or directory'')),
      read_bytes = Inl (FileNotFoundError (u ''No such file or directory'')),
      zip_file = Inl (FileNotFoundError (u ''No such file or directory'')),
      rar_file = Inl (FileNotFoundError (u ''No such file or directory'')),
      tar_file = (\<lambda>mode. Inl (FileNotFoundError (u ''No such file or directory''))),
      eml_message = Inl (FileNotFoundError (u ''No such file or directory'')),
      pst_file = Inl (FileNotFoundError (u ''No such file or directory'')),
      pdf_enhanced = Inl (LibraryError (u ''Unable to get page count'')),
      image_enhanced = Inl (FileNotFoundError (u ''No such file or directory'')),
      loader_dict = Some (ValueError (u ''File path is not a valid file or url'')),
      loader_load = Inl (FileNotFoundError (u ''No such file or directory'')),
      now_isoformat = u ''2024-05-01T12:00:00''\<rparr>"

text \<open>
  A ZIP archive with \<open>a.txt\<close> holding \<open>hello\<close> and \<open>b.bin\<close> holding the bytes
  \<open>FF FE 41\<close>, of which the first two are not valid UTF-8.
\<close>

definition evidence_zip :: archive where
  "evidence_zip =
     \<lparr>namelist = [u ''a.txt'', u ''b.bin''],
      getinfo = [u ''a.txt'' \<mapsto> \<lparr>file_size = 5, payload = Inr [0x68, 0x65, 0x6C, 0x6C, 0x6F]\<rparr>,
                 u ''b.bin'' \<mapsto> \<lparr>file_size = 3, payload = Inr [0xFF, 0xFE, 0x41]\<rparr>]\<rparr>"

definition zip_on_disk :: file_env where
  "zip_on_disk = no_file\<lparr>stat_size := Inr 230, zip_file := Inr evidence_zip,
                         read_text := Inr (u ''PK'')\<rparr>"

text \<open>A file that exists but that no library can read.\<close>

definition unreadable_file :: file_env where
  "unreadable_file =
     no_file\<lparr>stat_size := Inr 64,
             read_text := Inl (LibraryError (u ''Permission denied'')),
             read_bytes := Inl (LibraryError (u ''Permission denied'')),
             eml_message := Inl (LibraryError (u ''Permission denied'')),
             loader_dict := None,
             loader_load := Inl (LibraryError (u ''Permission denied''))\<rparr>"

definition text_file :: file_env where
  "text_file =
     no_file\<lparr>stat_size := Inr 12, read_text := Inr (u ''Net 30 days''),
             loader_dict := None, loader_load := Inr [u ''Net 30 days'']\<rparr>"

text \<open>A file in a directory that may not be searched: \<open>stat\<close> fails with \<open>EACCES\<close>.\<close>

definition sealed_file :: file_env where
  "sealed_file =
     no_file\<lparr>stat_size := Inl (PermissionError (u ''[Errno 13] Permission denied''))\<rparr>"

definition demo_world :: "ustr \<Rightarrow> file_env" where
  "demo_world file_path =
     (if file_path = u ''evidence.zip'' then zip_on_disk
      else if file_path = u ''contracts.tar.gz'' then zip_on_disk
      else if file_path = u ''broken.eml'' then unreadable_file
      else if file_path = u ''terms.txt'' then text_file
      else if file_path = u ''notes.xyz'' then text_file
      else if file_path = u ''sealed/ledger.eml'' then sealed_file
      else no_file)"

section \<open>Facts about strings\<close>

lemma u_eq_iff [simp]: "u a = u b \<longleftrightarrow> a = b"
  unfolding u_def by (simp add: inj_map_eq_map inj_on_def)

lemma length_u [simp]: "length (u s) = length s"
  by (simp add: u_def)

lemma set_strip_subset: "set (strip s) \<subseteq> set s"
proof -
  have "set (strip s) \<subseteq> set (rev (dropWhile isspace s))"
    unfolding strip_def using set_dropWhileD by fastforce
  also have "\<dots> \<subseteq> set s"
    using set_dropWhileD by fastforce
  finally show ?thesis .
qed

lemma set_join_subset: "set (join sep xs) \<subseteq> set sep \<union> \<Union> (set ` set xs)"
  by (induction sep xs rule: join.induct) auto

section \<open>The sentence splitter and the grouping loop\<close>

lemma re_split_from_no_terminator:
  "\<forall>c\<in>set piece. \<not> is_terminator c \<Longrightarrow> p \<in> set (re_split_from piece cs) \<Longrightarrow>
   \<forall>c\<in>set p. \<not> is_terminator c"
proof (induction piece cs rule: re_split_from.induct)
  case (1 piece)
  then show ?case by simp
next
  case (2 piece c' cs)
  show ?case
  proof (cases "is_terminator c'")
    case True
    with "2.prems" have "p = piece \<or> p \<in> set (re_split_from [] (dropWhile is_terminator cs))"
      by simp
    then show ?thesis
    proof
      assume "p = piece" with "2.prems"(1) show ?thesis by simp
    next
      assume "p \<in> set (re_split_from [] (dropWhile is_terminator cs))"
      with "2.IH"(1)[OF True] show ?thesis by simp
    qed
  next
    case False
    with "2.prems" have *: "p \<in> set (re_split_from (piece @ [c']) cs)" by simp
    from False "2.prems"(1) have "\<forall>c\<in>set (piece @ [c']). \<not> is_terminator c" by simp
    from "2.IH"(2)[OF False this *] show ?thesis .
  qed
qed

lemma sentence_nonempty: "s \<in> set (split_into_sentences t) \<Longrightarrow> s \<noteq> []"
  unfolding split_into_sentences_def Let_def by (simp add: image_iff) fastforce

lemma sentence_no_terminator:
  assumes "s \<in> set (split_into_sentences t)" "c \<in> set s"
  shows "\<not> is_terminator c"
proof -
  from assms(1) obtain p where p: "p \<in> set (re_split_from [] t)" and s: "s = strip p"
    unfolding split_into_sentences_def re_split_terminators_def Let_def by (simp add: image_iff) fastforce
  from assms(2) s have "c \<in> set p" using set_strip_subset by blast
  with p show ?thesis using re_split_from_no_terminator[of "[]" p t] by simp
qed

lemma space_not_terminator: "c \<in> set (u '' '') \<Longrightarrow> \<not> is_terminator c"
  by (simp add: is_terminator_def u_def)

lemma join_chars:
  assumes "\<forall>c\<in>set sep. P c" "\<forall>s\<in>set xs. \<forall>c\<in>set s. P c"
  shows "\<forall>c\<in>set (join sep xs). P c"
  using assms set_join_subset[of sep xs] by blast

text \<open>The grouping loop only moves sentences around and joins them with spaces.\<close>

lemma group_step_chars:
  assumes sp: "\<forall>c\<in>set (u '' ''). P c"
      and st: "\<forall>ch\<in>set (fst st). \<forall>c\<in>set ch. P c" "\<forall>s\<in>set (fst (snd st)). \<forall>c\<in>set s. P c"
      and se: "\<forall>c\<in>set (fst se). P c"
  shows "(\<forall>ch\<in>set (fst (group_step self st se)). \<forall>c\<in>set ch. P c) \<and>
         (\<forall>s\<in>set (fst (snd (group_step self st se))). \<forall>c\<in>set s. P c)"
proof -
  obtain chunks cur embs where [simp]: "st = (chunks, cur, embs)" by (cases st) auto
  obtain sentence embedding where [simp]: "se = (sentence, embedding)" by (cases se) auto
  from st have cur: "\<forall>s\<in>set cur. \<forall>c\<in>set s. P c" by simp
  have j: "\<forall>c\<in>set (join (u '' '') cur). P c" by (rule join_chars[OF sp cur])
  show ?thesis using st se j by (simp add: group_step_def Let_def)
qed

lemma group_loop_chars:
  assumes sp: "\<forall>c\<in>set (u '' ''). P c"
  shows "\<forall>ch\<in>set (fst st). \<forall>c\<in>set ch. P c \<Longrightarrow> \<forall>s\<in>set (fst (snd st)). \<forall>c\<in>set s. P c \<Longrightarrow>
         \<forall>se\<in>set ses. \<forall>c\<in>set (fst se). P c \<Longrightarrow>
         (\<forall>ch\<in>set (fst (foldl (group_step self) st ses)). \<forall>c\<in>set ch. P c) \<and>
         (\<forall>s\<in>set (fst (snd (foldl (group_step self) st ses))). \<forall>c\<in>set s. P c)"
proof (induction ses arbitrary: st)
  case Nil
  then show ?case by simp
next
  case (Cons se ses)
  from Cons.prems(3) have se: "\<forall>c\<in>set (fst se). P c" by simp
  from group_step_chars[OF sp Cons.prems(1,2) se, of self]
  have a: "\<forall>ch\<in>set (fst (group_step self st se)). \<forall>c\<in>set ch. P c"
   and b: "\<forall>s\<in>set (fst (snd (group_step self st se))). \<forall>c\<in>set s. P c" by blast+
  from Cons.prems(3) have rest: "\<forall>se\<in>set ses. \<forall>c\<in>set (fst se). P c" by simp
  from Cons.IH[OF a b rest] show ?case by simp
qed

lemma group_sentences_chars:
  assumes sp: "\<forall>c\<in>set (u '' ''). P c"
      and ss: "\<forall>s\<in>set sentences. \<forall>c\<in>set s. P c"
      and ch: "chunk \<in> set (group_sentences_semantically self sentences embeddings)"
  shows "\<forall>c\<in>set chunk. P c"
proof -
  let ?st = "foldl (group_step self) ([], [], []) (zip sentences embeddings)"
  have zs: "\<forall>se\<in>set (zip sentences embeddings). \<forall>c\<in>set (fst se). P c"
    using ss by (auto dest: set_zip_leftD)
  have inv: "(\<forall>ch\<in>set (fst ?st). \<forall>c\<in>set ch. P c) \<and> (\<forall>s\<in>set (fst (snd ?st)). \<forall>c\<in>set s. P c)"
    by (rule group_loop_chars[OF sp _ _ zs]) simp_all
  obtain chunks cur embs where st: "?st = (chunks, cur, embs)" by (cases ?st) auto
  from inv st have c1: "\<forall>ch\<in>set chunks. \<forall>c\<in>set ch. P c" and c2: "\<forall>s\<in>set cur. \<forall>c\<in>set s. P c"
    by simp_all
  have j: "\<forall>c\<in>set (join (u '' '') cur). P c" by (rule join_chars[OF sp c2])
  from ch st have "chunk \<in> set chunks \<or> chunk = join (u '' '') cur"
    by (auto simp: group_sentences_semantically_def split: if_splits)
  with c1 j show ?thesis by blast
qed

lemma convert_chunks_eq:
  "convert_chunks m md extra i chunks =
     map (\<lambda>(j, c). \<lparr>page_content = c, metadata = md ++ extra j\<rparr>)
         (filter (\<lambda>(j, c). m \<le> int (length (strip c))) (enumerate i chunks))"
  by (induction chunks arbitrary: i) simp_all

lemma convert_chunks_content:
  "d \<in> set (convert_chunks m md extra i chunks) \<Longrightarrow> page_content d \<in> set chunks"
  by (induction chunks arbitrary: i) (auto split: if_splits)

section \<open>Semantic chunking: the claims\<close>

lemmas sentence_eval =
  split_into_sentences_def re_split_terminators_def is_terminator_def strip_def isspace_def
  u_def Let_def

lemmas chunker_eval =
  semantic_chunk_def model_encode_def group_sentences_semantically_def group_step_def
  toy_chunker_def toy_encode_def toy_mean_def toy_cos_sim_def toy_split_text_def plain_doc_def

lemma stop_go_sentences: "split_into_sentences (u ''Stop. Go?'') = [u ''Stop'', u ''Go'']"
  by (simp add: sentence_eval)

lemma stop_go_sentences': "split_into_sentences (u ''Stop! Go.'') = [u ''Stop'', u ''Go'']"
  by (simp add: sentence_eval)

lemma stop_go_chunks:
  "semantic_chunk (toy_chunker 1 1000) (plain_doc (u ''Stop. Go?'')) =
     Inr [\<lparr>page_content = u ''Stop'', metadata = Map.empty ++ semantic_update 2 0\<rparr>,
          \<lparr>page_content = u ''Go'', metadata = Map.empty ++ semantic_update 2 1\<rparr>]"
  by (simp add: chunker_eval sentence_eval numeral_2_eq_2)

text \<open>
  Claim C10. Every sentence the splitter returns is non-empty and holds none of
  \<open>.\<close>, \<open>!\<close>, \<open>?\<close>; so when a document with at least two sentences goes through
  \<open>_semantic_chunk\<close>, no returned chunk holds one of them either. The punctuation is lost:
  two texts that differ only in their terminators split into the same sentences.
\<close>

theorem sentences_drop_terminators:
  "(\<forall>s\<in>set (split_into_sentences t). s \<noteq> [] \<and> (\<forall>c\<in>set s. \<not> is_terminator c)) \<and>
   (2 \<le> length (split_into_sentences (page_content doc)) \<and> semantic_chunk self doc = Inr docs \<longrightarrow>
      (\<forall>d\<in>set docs. \<forall>c\<in>set (page_content d). \<not> is_terminator c)) \<and>
   split_into_sentences (u ''Stop. Go?'') = split_into_sentences (u ''Stop! Go.'')"
proof (intro conjI impI)
  show "\<forall>s\<in>set (split_into_sentences t). s \<noteq> [] \<and> (\<forall>c\<in>set s. \<not> is_terminator c)"
    using sentence_nonempty sentence_no_terminator by blast
next
  assume a: "2 \<le> length (split_into_sentences (page_content doc)) \<and> semantic_chunk self doc = Inr docs"
  let ?ss = "split_into_sentences (page_content doc)"
  from a obtain embeddings where
    docs: "docs = convert_chunks (min_chunk_size self) (metadata doc)
             (semantic_update (length (group_sentences_semantically self ?ss embeddings))) 0
             (group_sentences_semantically self ?ss embeddings)"
    by (auto simp: semantic_chunk_def Let_def split: sum.splits)
  show "\<forall>d\<in>set docs. \<forall>c\<in>set (page_content d). \<not> is_terminator c"
  proof
    fix d assume "d \<in> set docs"
    with docs have "page_content d \<in> set (group_sentences_semantically self ?ss embeddings)"
      using convert_chunks_content by blast
    moreover have "\<forall>c\<in>set (u '' ''). \<not> is_terminator c" using space_not_terminator by blast
    moreover have "\<forall>s\<in>set ?ss. \<forall>c\<in>set s. \<not> is_terminator c" using sentence_no_terminator by blast
    ultimately show "\<forall>c\<in>set (page_content d). \<not> is_terminator c"
      using group_sentences_chars[where P = "\<lambda>c. \<not> is_terminator c"] by blast
  qed
next
  show "split_into_sentences (u ''Stop. Go?'') = split_into_sentences (u ''Stop! Go.'')"
    by (simp only: stop_go_sentences stop_go_sentences')
qed

theorem sentences_drop_terminators_witness:
  "split_into_sentences (u ''Stop. Go?'') = [u ''Stop'', u ''Go''] \<and>
   semantic_chunk (toy_chunker 1 1000) (plain_doc (u ''Stop. Go?'')) =
     Inr [\<lparr>page_content = u ''Stop'', metadata = Map.empty ++ semantic_update 2 0\<rparr>,
          \<lparr>page_content = u ''Go'', metadata = Map.empty ++ semantic_update 2 1\<rparr>] \<and>
   list_all (\<lambda>c. \<not> is_terminator c) (u ''Stop'') \<and> list_all (\<lambda>c. \<not> is_terminator c) (u ''Go'')"
proof -
  let ?docs = "[\<lparr>page_content = u ''Stop'', metadata = Map.empty ++ semantic_update 2 0\<rparr>,
          \<lparr>page_content = u ''Go'', metadata = Map.empty ++ semantic_update 2 1\<rparr>]"
  have two: "2 \<le> length (split_into_sentences (page_content (plain_doc (u ''Stop. Go?''))))"
    by (simp add: plain_doc_def stop_go_sentences)
  from sentences_drop_terminators[of "u ''Stop. Go?''" "plain_doc (u ''Stop. Go?'')"
      "toy_chunker 1 1000" ?docs] two stop_go_chunks
  have "\<forall>d\<in>set ?docs. \<forall>c\<in>set (page_content d). \<not> is_terminator c" by blast
  then have "list_all (\<lambda>c. \<not> is_terminator c) (u ''Stop'') \<and> list_all (\<lambda>c. \<not> is_terminator c) (u ''Go'')"
    by (simp add: list_all_iff)
  with stop_go_sentences stop_go_chunks show ?thesis by blast
qed

text \<open>
  Claim C8. A document whose text is exactly one sentence comes back from
  \<open>_semantic_chunk\<close> as exactly one chunk, equal to the input (content and metadata); with a
  loaded model \<open>chunk_document\<close> returns the same. The bound on the text's length is not
  needed for it.
\<close>

theorem single_sentence_is_one_chunk:
  "length (split_into_sentences (page_content doc)) = 1 \<Longrightarrow>
   semantic_chunk self doc = Inr [doc] \<and> (model self \<noteq> None \<longrightarrow> chunk_document self doc = [doc])"
  by (simp add: semantic_chunk_def chunk_document_def Let_def)

lemma contract_sentences: "split_into_sentences (u ''Termination requires notice'') = [u ''Termination requires notice'']"
  by (simp add: sentence_eval)

theorem single_sentence_is_one_chunk_witness:
  "length (split_into_sentences (u ''Termination requires notice'')) = 1 \<and>
   int (length (u ''Termination requires notice'')) < max_chunk_size (toy_chunker 200 1000) \<and>
   semantic_chunk (toy_chunker 200 1000) (plain_doc (u ''Termination requires notice'')) =
     Inr [plain_doc (u ''Termination requires notice'')] \<and>
   chunk_document (toy_chunker 200 1000) (plain_doc (u ''Termination requires notice'')) =
     [plain_doc (u ''Termination requires notice'')]"
  using single_sentence_is_one_chunk[of "plain_doc (u ''Termination requires notice'')" "toy_chunker 200 1000"]
  by (simp add: contract_sentences plain_doc_def toy_chunker_def)

lemma map_snd_filter_enumerate:
  "map snd (filter (\<lambda>(i, c). P c) (enumerate n xs)) = filter P xs"
  by (induction xs arbitrary: n) simp_all

lemma sorted_fst_filter_enumerate:
  "sorted_wrt (<) (map fst (filter Q (enumerate n xs)))"
proof -
  have "sorted_wrt (<) (map fst (enumerate n xs))" by simp
  then have "sorted_wrt (\<lambda>a b. fst a < fst b) (enumerate n xs)"
    by (simp only: sorted_wrt_map)
  then have "sorted_wrt (\<lambda>a b. fst a < fst b) (filter Q (enumerate n xs))"
    by (rule sorted_wrt_filter)
  then show ?thesis by (simp only: sorted_wrt_map)
qed

lemma filter_same_length: "length (filter P xs) = length xs \<Longrightarrow> filter P xs = xs"
proof (induction xs)
  case Nil
  then show ?case by simp
next
  case (Cons x xs)
  have le: "length (filter P xs) \<le> length xs" by (rule length_filter_le)
  show ?case
  proof (cases "P x")
    case True
    with Cons show ?thesis by simp
  next
    case False
    with Cons.prems le show ?thesis by simp
  qed
qed

lemma semantic_update_lookup:
  "(md ++ semantic_update n i) (u ''chunk_index'') = Some (PInt (int i))"
  "(md ++ semantic_update n i) (u ''chunking_method'') = Some (PStr (u ''semantic''))"
  "(md ++ semantic_update n i) (u ''total_chunks'') = Some (PInt (int n))"
  "(md ++ semantic_update n i) (u ''similarity_threshold'') = md (u ''similarity_threshold'')"
  by (simp_all add: semantic_update_def map_add_def)

lemma semantic_update_other:
  "k \<notin> {u ''chunk_index'', u ''chunking_method'', u ''total_chunks''} \<Longrightarrow>
   (md ++ semantic_update n i) k = md k"
  by (simp add: semantic_update_def map_add_def)

lemma semantic_original_update_lookup:
  "(md ++ semantic_original_update th n i) (u ''chunk_index'') = Some (PInt (int i))"
  "(md ++ semantic_original_update th n i) (u ''chunking_method'') = Some (PStr (u ''semantic_original''))"
  "(md ++ semantic_original_update th n i) (u ''total_chunks'') = Some (PInt (int n))"
  "(md ++ semantic_original_update th n i) (u ''similarity_threshold'') = Some (PFloat th)"
  by (simp_all add: semantic_original_update_def map_add_def)

text \<open>
  Claim C5, as the code has it. For a document with at least two sentences whose
  sentences the model encodes, \<open>_semantic_chunk\<close> returns, in order, the grouped chunks
  whose trimmed length is at least \<open>min_chunk_size\<close>. Each carries
  \<open>chunking_method = "semantic"\<close>, \<open>total_chunks\<close> equal to the number of grouped chunks
  before the filter, \<open>chunk_index\<close> equal to its position in that unfiltered grouping
  (strictly increasing over the returned chunks, and \<open>0..total_chunks-1\<close> when nothing was
  dropped) and every key of the parent's metadata; it gets no similarity threshold.
  \<open>_semantic_chunk_original\<close> returns the same chunks with the same indices, tagged
  \<open>chunking_method = "semantic_original"\<close> and with \<open>similarity_threshold\<close> added.
\<close>

theorem semantic_chunk_metadata:
  assumes two: "2 \<le> length (split_into_sentences (page_content doc))"
      and enc: "model_encode self (split_into_sentences (page_content doc)) = Inr embeddings"
      and chunks: "chunks = group_sentences_semantically self
                              (split_into_sentences (page_content doc)) embeddings"
      and kept: "kept = filter (\<lambda>(i, c). min_chunk_size self \<le> int (length (strip c)))
                               (enumerate 0 chunks)"
  shows "semantic_chunk self doc =
           Inr (map (\<lambda>(i, c). \<lparr>page_content = c,
                                 metadata = metadata doc ++ semantic_update (length chunks) i\<rparr>) kept) \<and>
         semantic_chunk_original self doc =
           Inr (map (\<lambda>(i, c). \<lparr>page_content = c,
                                 metadata = metadata doc ++
                                   semantic_original_update (similarity_threshold self)
                                     (length chunks) i\<rparr>) kept) \<and>
         map snd kept = filter (\<lambda>c. min_chunk_size self \<le> int (length (strip c))) chunks \<and>
         sorted_wrt (<) (map fst kept) \<and>
         (\<forall>(i, c)\<in>set kept. i < length chunks \<and> chunks ! i = c) \<and>
         (length kept = length chunks \<longrightarrow> map fst kept = [0..<length chunks]) \<and>
         (\<forall>i. (metadata doc ++ semantic_update (length chunks) i) (u ''chunk_index'') = Some (PInt (int i)) \<and>
              (metadata doc ++ semantic_update (length chunks) i) (u ''chunking_method'') =
                 Some (PStr (u ''semantic'')) \<and>
              (metadata doc ++ semantic_update (length chunks) i) (u ''total_chunks'') =
                 Some (PInt (int (length chunks))) \<and>
              (metadata doc ++ semantic_update (length chunks) i) (u ''similarity_threshold'') =
                 metadata doc (u ''similarity_threshold'') \<and>
              dom (metadata doc) \<subseteq> dom (metadata doc ++ semantic_update (length chunks) i)) \<and>
         (\<forall>i k. k \<notin> {u ''chunk_index'', u ''chunking_method'', u ''total_chunks''} \<longrightarrow>
              (metadata doc ++ semantic_update (length chunks) i) k = metadata doc k) \<and>
         (\<forall>i. (metadata doc ++ semantic_original_update (similarity_threshold self) (length chunks) i)
                 (u ''chunking_method'') = Some (PStr (u ''semantic_original'')) \<and>
              (metadata doc ++ semantic_original_update (similarity_threshold self) (length chunks) i)
                 (u ''similarity_threshold'') = Some (PFloat (similarity_threshold self)))"
proof (intro conjI)
  from two have nt: "\<not> length (split_into_sentences (page_content doc)) < 2" by simp
  show "semantic_chunk self doc =
           Inr (map (\<lambda>(i, c). \<lparr>page_content = c,
                                 metadata = metadata doc ++ semantic_update (length chunks) i\<rparr>) kept)"
    using nt enc by (simp add: semantic_chunk_def Let_def convert_chunks_eq chunks kept)
  show "semantic_chunk_original self doc =
           Inr (map (\<lambda>(i, c). \<lparr>page_content = c,
                                 metadata = metadata doc ++
                                   semantic_original_update (similarity_threshold self)
                                     (length chunks) i\<rparr>) kept)"
    using nt enc by (simp add: semantic_chunk_original_def Let_def convert_chunks_eq chunks kept)
  show "map snd kept = filter (\<lambda>c. min_chunk_size self \<le> int (length (strip c))) chunks"
    unfolding kept by (rule map_snd_filter_enumerate)
  show "sorted_wrt (<) (map fst kept)"
    unfolding kept by (rule sorted_fst_filter_enumerate)
  show "\<forall>(i, c)\<in>set kept. i < length chunks \<and> chunks ! i = c"
    unfolding kept by (auto simp: in_set_enumerate_eq)
  show "length kept = length chunks \<longrightarrow> map fst kept = [0..<length chunks]"
  proof
    assume "length kept = length chunks"
    then have "kept = enumerate 0 chunks"
      unfolding kept using filter_same_length[of _ "enumerate 0 chunks"] by simp
    then show "map fst kept = [0..<length chunks]" by simp
  qed
  show "\<forall>i. (metadata doc ++ semantic_update (length chunks) i) (u ''chunk_index'') = Some (PInt (int i)) \<and>
              (metadata doc ++ semantic_update (length chunks) i) (u ''chunking_method'') =
                 Some (PStr (u ''semantic'')) \<and>
              (metadata doc ++ semantic_update (length chunks) i) (u ''total_chunks'') =
                 Some (PInt (int (length chunks))) \<and>
              (metadata doc ++ semantic_update (length chunks) i) (u ''similarity_threshold'') =
                 metadata doc (u ''similarity_threshold'') \<and>
              dom (metadata doc) \<subseteq> dom (metadata doc ++ semantic_update (length chunks) i)"
    by (simp add: semantic_update_lookup)
  show "\<forall>i k. k \<notin> {u ''chunk_index'', u ''chunking_method'', u ''total_chunks''} \<longrightarrow>
              (metadata doc ++ semantic_update (length chunks) i) k = metadata doc k"
    using semantic_update_other by blast
  show "\<forall>i. (metadata doc ++ semantic_original_update (similarity_threshold self) (length chunks) i)
                 (u ''chunking_method'') = Some (PStr (u ''semantic_original'')) \<and>
              (metadata doc ++ semantic_original_update (similarity_threshold self) (length chunks) i)
                 (u ''similarity_threshold'') = Some (PFloat (similarity_threshold self))"
    by (simp add: semantic_original_update_lookup)
qed


lemma a_bc_sentences: "split_into_sentences (u ''a. bc'') = [u ''a'', u ''bc'']"
  by (simp add: sentence_eval)

lemma a_bc_encode: "model_encode (toy_chunker 2 1000) [u ''a'', u ''bc''] = Inr [97, 98]"
  by (simp add: model_encode_def toy_chunker_def toy_encode_def u_def)

lemma a_bc_group:
  "group_sentences_semantically (toy_chunker 2 1000) [u ''a'', u ''bc''] [97, 98] = [u ''a'', u ''bc'']"
  by (simp add: chunker_eval)

lemma a_bc_kept:
  "filter (\<lambda>(i, c). min_chunk_size (toy_chunker 2 1000) \<le> int (length (strip c)))
     (enumerate 0 [u ''a'', u ''bc'']) = [(1, u ''bc'')]"
  by (simp add: toy_chunker_def strip_def isspace_def u_def)

theorem semantic_chunk_metadata_witness:
  "2 \<le> length (split_into_sentences (page_content (plain_doc (u ''a. bc'')))) \<and>
   model_encode (toy_chunker 2 1000) (split_into_sentences (page_content (plain_doc (u ''a. bc''))))
     = Inr [97, 98] \<and>
   group_sentences_semantically (toy_chunker 2 1000)
     (split_into_sentences (page_content (plain_doc (u ''a. bc'')))) [97, 98] = [u ''a'', u ''bc''] \<and>
   semantic_chunk (toy_chunker 2 1000) (plain_doc (u ''a. bc'')) =
     Inr [\<lparr>page_content = u ''bc'',
           metadata = metadata (plain_doc (u ''a. bc'')) ++ semantic_update 2 1\<rparr>]"
proof -
  let ?D = "plain_doc (u ''a. bc'')" and ?S = "toy_chunker 2 1000"
  have pc: "page_content ?D = u ''a. bc''" by (simp add: plain_doc_def)
  have h1: "2 \<le> length (split_into_sentences (page_content ?D))"
    by (simp add: pc a_bc_sentences)
  have h2: "model_encode ?S (split_into_sentences (page_content ?D)) = Inr [97, 98]"
    by (simp only: pc a_bc_sentences a_bc_encode)
  have h3: "[u ''a'', u ''bc''] =
      group_sentences_semantically ?S (split_into_sentences (page_content ?D)) [97, 98]"
    by (simp only: pc a_bc_sentences a_bc_group)
  have h4: "[(1, u ''bc'')] = filter (\<lambda>(i, c). min_chunk_size ?S \<le> int (length (strip c)))
     (enumerate 0 [u ''a'', u ''bc''])"
    by (simp only: a_bc_kept)
  from semantic_chunk_metadata[OF h1 h2 h3 h4]
  have "semantic_chunk ?S ?D =
     Inr [\<lparr>page_content = u ''bc'', metadata = metadata ?D ++ semantic_update 2 1\<rparr>]"
    by (simp add: numeral_2_eq_2)
  with h1 h2 h3[symmetric] show ?thesis by blast
qed

text \<open>
  Claim C5 as stated fails when a chunk is dropped: of the two grouped chunks \<open>a\<close> and
  \<open>bc\<close> only \<open>bc\<close> reaches \<open>min_chunk_size = 2\<close>; the one returned chunk has
  \<open>chunk_index = 1\<close> and \<open>total_chunks = 2\<close>, and no similarity threshold.
\<close>

theorem semantic_chunk_metadata_counterexample:
  "map_sum id (map (\<lambda>d. (page_content d, metadata d (u ''chunk_index''),
                          metadata d (u ''total_chunks''), metadata d (u ''similarity_threshold''))))
     (semantic_chunk (toy_chunker 2 1000) (plain_doc (u ''a. bc''))) =
   Inr [(u ''bc'', Some (PInt 1), Some (PInt 2), None)]"
  by (simp add: chunker_eval sentence_eval semantic_update_def)




text \<open>
  Claim C6, as the code has it. When the model handle is absent or \<open>_semantic_chunk\<close>
  raises, \<open>chunk_document\<close> returns what the fallback splitter's \<open>split_documents\<close> returns
  for the document: pieces of its text, each with the parent's metadata unchanged. The
  chunker writes no \<open>chunking_method\<close> on this path.
\<close>

theorem fallback_is_untagged:
  "model self = None \<or> semantic_chunk self doc = Inl e \<Longrightarrow>
   chunk_document self doc = split_documents (fallback_split_text self) [doc] \<and>
   (\<forall>d\<in>set (chunk_document self doc).
      metadata d = metadata doc \<and> page_content d \<in> set (fallback_split_text self (page_content doc)))"
  by (auto simp: chunk_document_def fallback_chunker_def split_documents_def)

theorem fallback_is_untagged_witness:
  "semantic_chunk ((toy_chunker 200 1000)\<lparr>model := Some failing_encode\<rparr>)
     (plain_doc (u ''First point. Second point.'')) = Inl (LibraryError (u ''CUDA out of memory'')) \<and>
   chunk_document ((toy_chunker 200 1000)\<lparr>model := Some failing_encode\<rparr>)
     (plain_doc (u ''First point. Second point.'')) = [plain_doc (u ''First point. Second point.'')]"
proof -
  let ?S = "(toy_chunker 200 1000)\<lparr>model := Some failing_encode\<rparr>"
  let ?D = "plain_doc (u ''First point. Second point.'')"
  have h: "semantic_chunk ?S ?D = Inl (LibraryError (u ''CUDA out of memory''))"
    by (simp add: semantic_chunk_def model_encode_def toy_chunker_def plain_doc_def
        failing_encode_def sentence_eval)
  from fallback_is_untagged[of ?S ?D, OF disjI2, OF h]
  have "chunk_document ?S ?D = split_documents (fallback_split_text ?S) [?D]" by blast
  then have "chunk_document ?S ?D = [?D]"
    by (simp add: split_documents_def toy_chunker_def toy_split_text_def plain_doc_def)
  with h show ?thesis by blast
qed

text \<open>
  Claim C6 as stated fails: without a model, the chunk returned for a document with empty
  metadata has no \<open>chunking_method\<close> key.
\<close>

theorem fallback_is_untagged_counterexample:
  "map (\<lambda>d. (page_content d, metadata d (u ''chunking_method'')))
     (chunk_document ((toy_chunker 200 1000)\<lparr>model := None\<rparr>)
        (plain_doc (u ''First point. Second point.''))) =
   [(u ''First point. Second point.'', None)]"
  by (simp add: chunk_document_def fallback_chunker_def split_documents_def toy_chunker_def
      toy_split_text_def plain_doc_def)

text \<open>
  Claim C4 on the code. The loop compares the length of the running chunk, before the new
  sentence is added, with \<open>max_chunk_size\<close>. With \<open>max_chunk_size = 10\<close> (and an overlap of 2,
  so that the chunker can be constructed), two similar sentences of 10 characters each end
  up in one chunk of 21 characters, although neither sentence is longer than the maximum.
\<close>

theorem chunk_exceeds_max_chunk_size:
  "max_chunk_size small_chunker = 10 \<and>
   0 \<le> chunk_overlap small_chunker \<and> chunk_overlap small_chunker \<le> max_chunk_size small_chunker \<and>
   split_into_sentences (u ''Clause one. Clause two.'') = [u ''Clause one'', u ''Clause two''] \<and>
   int (length (u ''Clause one'')) \<le> max_chunk_size small_chunker \<and>
   int (length (u ''Clause two'')) \<le> max_chunk_size small_chunker \<and>
   map_sum id (map page_content)
     (semantic_chunk small_chunker (plain_doc (u ''Clause one. Clause two.''))) =
     Inr [u ''Clause one Clause two''] \<and>
   map_sum id (map page_content)
     (semantic_chunk_original small_chunker (plain_doc (u ''Clause one. Clause two.''))) =
     Inr [u ''Clause one Clause two''] \<and>
   map page_content
     (chunk_document small_chunker (plain_doc (u ''Clause one. Clause two.''))) =
     [u ''Clause one Clause two''] \<and>
   int (length (u ''Clause one Clause two'')) = 21"
  by (simp add: chunker_eval sentence_eval small_chunker_def semantic_chunk_original_def
      chunk_document_def)

section \<open>Facts about decoding\<close>

lemmas path_eval = path_suffix_def path_name_def lower_def strip_dots_def endswith_def Let_def

lemmas world_eval = demo_world_def zip_on_disk_def unreadable_file_def text_file_def sealed_file_def
  no_file_def path_exists_def

text \<open>
  With \<open>errors='ignore'\<close> decoding always returns a string: an ill-formed byte is dropped,
  never reported.
\<close>

lemma not_isl_if: "\<not> isl x \<Longrightarrow> \<not> isl y \<Longrightarrow> \<not> isl (if c then x else y)"
  by simp

lemma not_isl_map_sum: "\<not> isl x \<Longrightarrow> \<not> isl (map_sum f g x)"
  by (cases x) simp_all

lemma not_isl_case_list:
  "(l = [] \<Longrightarrow> \<not> isl n) \<Longrightarrow> (\<And>x xs. l = x # xs \<Longrightarrow> \<not> isl (g x xs)) \<Longrightarrow>
   \<not> isl (case l of [] \<Rightarrow> n | x # xs \<Rightarrow> g x xs)"
  by (cases l) simp_all

lemma utf8_decode_ignore_total: "\<not> isl (utf8_decode Ignore bs)"
proof (induction bs rule: length_induct)
  case (1 bs)
  show ?case
  proof (cases bs)
    case Nil
    then show ?thesis by simp
  next
    case (Cons b rest)
    have ih: "\<And>r :: nat list. length r \<le> length rest \<Longrightarrow> \<not> isl (utf8_decode Ignore r)"
      using 1 Cons by simp
    have "\<not> isl (utf8_decode Ignore (b # rest))"
      apply (subst utf8_decode.simps(2))
      apply (simp only: Let_def errors_mode.simps if_False)
      apply (intro not_isl_if not_isl_map_sum not_isl_case_list)
      apply (simp_all add: ih del: utf8_decode.simps)
      done
    with Cons show ?thesis by simp
  qed
qed

lemma decode_ignore_total: "\<exists>t. decode content Ignore = Inr t"
  unfolding decode_def using utf8_decode_ignore_total[of "map unat content"]
  by (cases "utf8_decode Ignore (map unat content)") simp_all

section \<open>Archives: the claims\<close>

lemma decode_hello: "decode [0x68, 0x65, 0x6C, 0x6C, 0x6F] Ignore = Inr (u ''hello'')"
  by (simp add: decode_def u_def)

lemma decode_b_bin: "decode [0xFF, 0xFE, 0x41] Ignore = Inr (u ''A'')"
  by (simp add: decode_def u_def)

lemma decode_b_bin_strict: "isl (decode [0xFF, 0xFE, 0x41] Strict)"
  by (simp add: decode_def u_def)

lemma suffix_zip: "path_suffix (u ''evidence.zip'') = u ''.zip''"
  by (simp add: path_eval u_def)

lemma suffix_tar_gz: "path_suffix (u ''contracts.tar.gz'') = u ''.gz''"
  by (simp add: path_eval u_def)

lemma suffix_tar_bz2: "path_suffix (u ''contracts.tar.bz2'') = u ''.bz2''"
  by (simp add: path_eval u_def)

lemma name_zip: "path_name (u ''evidence.zip'') = u ''evidence.zip''"
  by (simp add: path_eval u_def)

lemma lower_zip: "lower (u ''.zip'') = u ''.zip''"
  by (simp add: path_eval u_def)

lemma evidence_zip_items:
  "foldl (entry_step evidence_zip) ([], 0) [u ''a.txt'', u ''b.bin''] =
     ([\<lparr>item_filename = u ''a.txt'', item_content = u ''hello'', item_size = 5, item_type = u ''text''\<rparr>,
       \<lparr>item_filename = u ''b.bin'', item_content = u ''A'', item_size = 3, item_type = u ''text''\<rparr>], 8)"
proof -
  have a: "getinfo evidence_zip (u ''a.txt'') =
             Some \<lparr>file_size = 5, payload = Inr [0x68, 0x65, 0x6C, 0x6C, 0x6F]\<rparr>"
    by (simp add: evidence_zip_def)
  have b: "getinfo evidence_zip (u ''b.bin'') = Some \<lparr>file_size = 3, payload = Inr [0xFF, 0xFE, 0x41]\<rparr>"
    by (simp add: evidence_zip_def)
  have e: "\<not> endswith (u ''a.txt'') (u ''/'')" "\<not> endswith (u ''b.bin'') (u ''/'')"
    by (simp_all add: endswith_def u_def)
  show ?thesis
    by (simp add: entry_step_def a b e decode_hello decode_b_bin Let_def)
qed

lemma evidence_zip_exists: "path_exists (demo_world (u ''evidence.zip'')) = Inr True"
  by (simp add: world_eval)

lemma evidence_zip_extraction:
  "zip_extraction zip_on_disk (u ''evidence.zip'') =
     archive_record (u ''ZIP'') (u ''zip'') zip_on_disk (u ''evidence.zip'') [u ''a.txt'', u ''b.bin'']
       ([\<lparr>item_filename = u ''a.txt'', item_content = u ''hello'', item_size = 5, item_type = u ''text''\<rparr>,
         \<lparr>item_filename = u ''b.bin'', item_content = u ''A'', item_size = 3, item_type = u ''text''\<rparr>], 8)"
proof -
  have z: "zip_file zip_on_disk = Inr evidence_zip" by (simp add: zip_on_disk_def)
  have n: "namelist evidence_zip = [u ''a.txt'', u ''b.bin'']" by (simp add: evidence_zip_def)
  show ?thesis
    by (simp only: zip_extraction_def z n sum.case Let_def evidence_zip_items)
qed

lemma evidence_zip_record:
  "process_archive_file all_caps demo_world (u ''evidence.zip'') =
     archive_record (u ''ZIP'') (u ''zip'') zip_on_disk (u ''evidence.zip'') [u ''a.txt'', u ''b.bin'']
       ([\<lparr>item_filename = u ''a.txt'', item_content = u ''hello'', item_size = 5, item_type = u ''text''\<rparr>,
         \<lparr>item_filename = u ''b.bin'', item_content = u ''A'', item_size = 3, item_type = u ''text''\<rparr>], 8)"
proof -
  let ?st = "([\<lparr>item_filename = u ''a.txt'', item_content = u ''hello'', item_size = 5, item_type = u ''text''\<rparr>,
         \<lparr>item_filename = u ''b.bin'', item_content = u ''A'', item_size = 3, item_type = u ''text''\<rparr>], 8 :: nat)"
  let ?rec = "archive_record (u ''ZIP'') (u ''zip'') zip_on_disk (u ''evidence.zip'') [u ''a.txt'', u ''b.bin''] ?st"
  have w: "demo_world (u ''evidence.zip'') = zip_on_disk" by (simp add: demo_world_def)
  have st: "stat_size zip_on_disk = Inr 230" by (simp add: zip_on_disk_def)
  obtain r where r: "?rec = Inr r"
    by (simp add: archive_record_def st Let_def)
  have "process_archive_file all_caps demo_world (u ''evidence.zip'') =
          process_zip_file all_caps zip_on_disk (u ''evidence.zip'')"
    unfolding process_archive_file_def evidence_zip_exists
    by (simp add: w suffix_zip lower_zip Let_def)
  also have "\<dots> = (case ?rec of Inr result \<Rightarrow> Inr result
        | Inl e \<Rightarrow> fallback_processing zip_on_disk (u ''evidence.zip'') (u ''ZIP processing failed: '' @ str_exn e))"
    by (simp only: process_zip_file_def all_caps_def capabilities.simps not_True_eq_False if_False
          evidence_zip_extraction)
  also have "\<dots> = ?rec" by (simp add: r)
  finally show ?thesis .
qed

lemma evidence_zip_result:
  "process_archive_file all_caps demo_world (u ''evidence.zip'') =
     Inr \<lparr>raw_content =
            nl @ u ''ZIP ARCHIVE CONTENTS'' @ nl @ u ''==================='' @ nl @
            u ''Archive: evidence.zip'' @ nl @ u ''Files: 2'' @ nl @
            u ''Total Size: 8 bytes'' @ nl @ nl @
            nl @ u ''FILE: a.txt'' @ nl @ u ''Size: 5 bytes'' @ nl @ u ''Type: text'' @ nl @
            u ''Content:'' @ nl @ u ''hello'' @ nl @ replicate 50 45 @ nl @
            nl @ u ''FILE: b.bin'' @ nl @ u ''Size: 3 bytes'' @ nl @ u ''Type: text'' @ nl @
            u ''Content:'' @ nl @ u ''A'' @ nl @ replicate 50 45 @ nl,
          url = u ''evidence.zip'',
          enhanced_processing = True,
          result_metadata =
            [u ''file_type'' \<mapsto> PStr (u ''zip''),
             u ''processing_method'' \<mapsto> PStr (u ''archive_extraction''),
             u ''file_count'' \<mapsto> PInt 2,
             u ''total_size'' \<mapsto> PInt 8,
             u ''extracted_files'' \<mapsto> PList [PStr (u ''a.txt''), PStr (u ''b.bin'')],
             u ''file_size'' \<mapsto> PInt 230,
             u ''processed_at'' \<mapsto> PStr (u ''2024-05-01T12:00:00'')]\<rparr>"
proof -
  have st: "stat_size zip_on_disk = Inr 230" by (simp add: zip_on_disk_def)
  have now: "now_isoformat zip_on_disk = u ''2024-05-01T12:00:00''"
    by (simp add: zip_on_disk_def no_file_def)
  show ?thesis
    unfolding evidence_zip_record
    by (simp add: archive_record_def st now format_item_def path_name_def str_nat.simps u_def)
qed

lemma replicate_50: "replicate 50 x = [x, x, x, x, x, x, x, x, x, x, x, x, x, x, x, x, x, x, x, x, x, x, x, x, x, x, x, x, x, x, x, x, x, x, x, x, x, x, x, x, x, x, x, x, x, x, x, x, x, x]"
  by (simp add: numeral_eq_Suc)

text \<open>
  Claim C1. The ZIP archive with \<open>a.txt\<close> holding \<open>hello\<close> and \<open>b.bin\<close> holding bytes
  that are not UTF-8 is processed into a record with \<open>file_count = 2\<close>, both names in
  \<open>extracted_files\<close> and \<open>hello\<close> in \<open>raw_content\<close>; but \<open>b.bin\<close> is reported as an entry
  of type \<open>text\<close> whose content is what is left of its bytes once the ill-formed ones are
  dropped, and \<open>raw_content\<close> holds neither \<open>[Binary file: b.bin]\<close> nor an entry of type
  \<open>binary\<close>. The decoding that the entry loop calls never raises, whatever the bytes, so
  the handler that writes the placeholder is never reached; a strict decoding of the same
  bytes does raise.
\<close>

theorem binary_entry_is_decoded_as_text:
  "(\<exists>r. process_archive_file all_caps demo_world (u ''evidence.zip'') = Inr r \<and>
        result_metadata r (u ''file_count'') = Some (PInt 2) \<and>
        result_metadata r (u ''extracted_files'') =
          Some (PList [PStr (u ''a.txt''), PStr (u ''b.bin'')]) \<and>
        contains (u ''hello'') (raw_content r) \<and>
        contains (u ''FILE: b.bin'' @ nl @ u ''Size: 3 bytes'' @ nl @ u ''Type: text'' @ nl @
                  u ''Content:'' @ nl @ u ''A'' @ nl) (raw_content r) \<and>
        \<not> contains (u ''[Binary file: b.bin]'') (raw_content r) \<and>
        \<not> contains (u ''Type: binary'') (raw_content r)) \<and>
   (\<forall>content. \<exists>t. decode content Ignore = Inr t) \<and>
   isl (decode [0xFF, 0xFE, 0x41] Strict)"
proof (intro conjI allI)
  show "\<exists>r. process_archive_file all_caps demo_world (u ''evidence.zip'') = Inr r \<and>
        result_metadata r (u ''file_count'') = Some (PInt 2) \<and>
        result_metadata r (u ''extracted_files'') =
          Some (PList [PStr (u ''a.txt''), PStr (u ''b.bin'')]) \<and>
        contains (u ''hello'') (raw_content r) \<and>
        contains (u ''FILE: b.bin'' @ nl @ u ''Size: 3 bytes'' @ nl @ u ''Type: text'' @ nl @
                  u ''Content:'' @ nl @ u ''A'' @ nl) (raw_content r) \<and>
        \<not> contains (u ''[Binary file: b.bin]'') (raw_content r) \<and>
        \<not> contains (u ''Type: binary'') (raw_content r)"
    unfolding evidence_zip_result by (simp add: u_def nl_def replicate_50)
next
  fix content show "\<exists>t. decode content Ignore = Inr t" by (rule decode_ignore_total)
next
  show "isl (decode [0xFF, 0xFE, 0x41] Strict)" by (rule decode_b_bin_strict)
qed

text \<open>
  \<open>Path.suffix\<close> is the last suffix only: of a name that ends in \<open>.tar.gz\<close> it is \<open>.gz\<close>, of
  one that ends in \<open>.tar.bz2\<close> it is \<open>.bz2\<close>.
\<close>

lemma path_name_append:
  "47 \<notin> set s \<Longrightarrow> path_name (q @ s) = path_name q @ s"
proof -
  assume a: "47 \<notin> set s"
  have "takeWhile (\<lambda>c. c \<noteq> 47) (rev s @ rev q) = rev s @ takeWhile (\<lambda>c. c \<noteq> 47) (rev q)"
    using a by (intro takeWhile_append2) auto
  then show ?thesis by (simp add: path_name_def)
qed

lemma suffix_of_tar_gz: "path_suffix (q @ u ''.tar.gz'') = u ''.gz''"
proof -
  have n: "path_name (q @ u ''.tar.gz'') = path_name q @ u ''.tar.gz''"
    by (rule path_name_append) (simp add: u_def)
  show ?thesis
    unfolding path_suffix_def n by (simp add: u_def Let_def)
qed

lemma suffix_of_tar_bz2: "path_suffix (q @ u ''.tar.bz2'') = u ''.bz2''"
proof -
  have n: "path_name (q @ u ''.tar.bz2'') = path_name q @ u ''.tar.bz2''"
    by (rule path_name_append) (simp add: u_def)
  show ?thesis
    unfolding path_suffix_def n by (simp add: u_def Let_def)
qed

text \<open>
  Claim C7. A file whose name ends in \<open>.tar.gz\<close> or \<open>.tar.bz2\<close> is not dispatched to
  \<open>_process_tar_file\<close>: \<open>process_archive_file\<close> compares \<open>Path.suffix\<close>, which is \<open>.gz\<close> or
  \<open>.bz2\<close>, with \<open>.tar\<close>, \<open>.tar.gz\<close> and \<open>.tar.bz2\<close>, so when the file exists it raises
  \<open>ValueError\<close> (unsupported archive format), whatever the file holds and whatever
  libraries are available; when it does not exist the call raises \<open>FileNotFoundError\<close>, and
  when \<open>exists()\<close> itself raises, that exception.
\<close>

theorem tar_gz_is_rejected:
  "process_archive_file caps world (q @ u ''.tar.gz'') =
     (case path_exists (world (q @ u ''.tar.gz'')) of
        Inl e \<Rightarrow> Inl e
      | Inr exists \<Rightarrow>
          if exists then Inl (ValueError (u ''Unsupported archive format: .gz''))
          else Inl (FileNotFoundError (u ''Archive file not found: '' @ q @ u ''.tar.gz''))) \<and>
   process_archive_file caps world (q @ u ''.tar.bz2'') =
     (case path_exists (world (q @ u ''.tar.bz2'')) of
        Inl e \<Rightarrow> Inl e
      | Inr exists \<Rightarrow>
          if exists then Inl (ValueError (u ''Unsupported archive format: .bz2''))
          else Inl (FileNotFoundError (u ''Archive file not found: '' @ q @ u ''.tar.bz2''))) \<and>
   path_exists (demo_world (u ''contracts.tar.gz'')) = Inr True \<and>
   process_archive_file all_caps demo_world (u ''contracts.tar.gz'') =
     Inl (ValueError (u ''Unsupported archive format: .gz''))"
proof (intro conjI)
  show "process_archive_file caps world (q @ u ''.tar.gz'') =
     (case path_exists (world (q @ u ''.tar.gz'')) of
        Inl e \<Rightarrow> Inl e
      | Inr exists \<Rightarrow>
          if exists then Inl (ValueError (u ''Unsupported archive format: .gz''))
          else Inl (FileNotFoundError (u ''Archive file not found: '' @ q @ u ''.tar.gz'')))"
    unfolding process_archive_file_def suffix_of_tar_gz
    by (simp add: lower_def u_def Let_def split: sum.splits)
  show "process_archive_file caps world (q @ u ''.tar.bz2'') =
     (case path_exists (world (q @ u ''.tar.bz2'')) of
        Inl e \<Rightarrow> Inl e
      | Inr exists \<Rightarrow>
          if exists then Inl (ValueError (u ''Unsupported archive format: .bz2''))
          else Inl (FileNotFoundError (u ''Archive file not found: '' @ q @ u ''.tar.bz2'')))"
    unfolding process_archive_file_def suffix_of_tar_bz2
    by (simp add: lower_def u_def Let_def split: sum.splits)
  show ex: "path_exists (demo_world (u ''contracts.tar.gz'')) = Inr True"
    by (simp add: demo_world_def zip_on_disk_def path_exists_def)
  show "process_archive_file all_caps demo_world (u ''contracts.tar.gz'') =
     Inl (ValueError (u ''Unsupported archive format: .gz''))"
    unfolding process_archive_file_def suffix_tar_gz ex
    by (simp add: lower_def u_def Let_def)
qed

section \<open>Batches: the claims\<close>

text \<open>
  The loop of the e-mail and archive batches looks every exception up by its index, which
  is the index of the path it came from.
\<close>

lemma handle_exceptions_map:
  "handle_exceptions file_paths (map f file_paths) =
     map (\<lambda>p. case f p of Inl e \<Rightarrow> error_record p e | Inr r \<Rightarrow> r) file_paths"
  unfolding handle_exceptions_def
  by (rule nth_equalityI) (simp_all add: nth_enumerate_eq)

lemma terms_txt_document:
  "process_document demo_world (u ''terms.txt'') =
     Inr \<lparr>raw_content = u ''Net 30 days'', url = u ''terms.txt'', enhanced_processing = False,
          result_metadata = [u ''file_type'' \<mapsto> PStr (u ''txt''),
                             u ''processing_method'' \<mapsto> PStr (u ''gpt_researcher'')]\<rparr>"
proof -
  have s: "path_suffix (u ''terms.txt'') = u ''.txt''" by (simp add: path_eval u_def)
  have n: "path_name (u ''terms.txt'') = u ''terms.txt''" by (simp add: path_eval u_def)
  have w: "demo_world (u ''terms.txt'') = text_file" by (simp add: demo_world_def u_def)
  have l: "loader_dict text_file = None" "loader_load text_file = Inr [u ''Net 30 days'']"
    by (simp_all add: text_file_def)
  show ?thesis
    unfolding process_document_def process_with_gpt_researcher_def s n w l
    by (simp add: lower_def strip_dots_def image_exts_def u_def Let_def)
qed

lemma notes_xyz_document:
  "process_document demo_world (u ''notes.xyz'') = Inl (ValueError (u ''Unsupported file type: xyz''))"
proof -
  have s: "path_suffix (u ''notes.xyz'') = u ''.xyz''" by (simp add: path_eval u_def)
  have w: "demo_world (u ''notes.xyz'') = text_file" by (simp add: demo_world_def u_def)
  have l: "loader_dict text_file = None" by (simp add: text_file_def)
  show ?thesis
    unfolding process_document_def process_with_gpt_researcher_def s w l
    by (simp add: lower_def strip_dots_def image_exts_def u_def Let_def)
qed

lemma missing_eml:
  "process_email_file all_caps demo_world (u ''missing.eml'') =
     Inl (FileNotFoundError (u ''Email file not found: missing.eml''))"
proof -
  have w: "demo_world (u ''missing.eml'') = no_file" by (simp add: demo_world_def u_def)
  have "path_exists no_file = Inr False" by (simp add: path_exists_def no_file_def)
  then show ?thesis unfolding process_email_file_def w by (simp add: u_def)
qed

text \<open>
  Claim C2. The e-mail and archive batches return one record per path, in the order of
  the paths, an item that raised being replaced by the error record built from its own
  path and the exception's message. The document batch also returns one outcome per path,
  but it returns what \<open>asyncio.gather(..., return_exceptions=True)\<close> returns: for the paths
  \<open>terms.txt\<close> and \<open>notes.xyz\<close> the second slot is the \<open>ValueError\<close> object itself, not a
  record.
\<close>

theorem documents_batch_returns_raw_exceptions:
  "process_email_files_batch caps world file_paths =
     map (\<lambda>p. case process_email_file caps world p of
                 Inl e \<Rightarrow> error_record p e | Inr r \<Rightarrow> r) file_paths \<and>
   process_archive_files_batch caps world file_paths =
     map (\<lambda>p. case process_archive_file caps world p of
                 Inl e \<Rightarrow> error_record p e | Inr r \<Rightarrow> r) file_paths \<and>
   length (process_documents_batch world file_paths) = length file_paths \<and>
   process_email_files_batch all_caps demo_world [u ''missing.eml''] =
     [\<lparr>raw_content = u ''Error processing missing.eml: Email file not found: missing.eml'',
       url = u ''missing.eml'', enhanced_processing = False,
       result_metadata = [u ''file_type'' \<mapsto> PStr (u ''.eml''),
                          u ''processing_method'' \<mapsto> PStr (u ''error''),
                          u ''error'' \<mapsto> PStr (u ''Email file not found: missing.eml'')]\<rparr>] \<and>
   process_documents_batch demo_world [u ''terms.txt'', u ''notes.xyz''] =
     [Inr \<lparr>raw_content = u ''Net 30 days'', url = u ''terms.txt'', enhanced_processing = False,
           result_metadata = [u ''file_type'' \<mapsto> PStr (u ''txt''),
                              u ''processing_method'' \<mapsto> PStr (u ''gpt_researcher'')]\<rparr>,
      Inl (ValueError (u ''Unsupported file type: xyz''))]"
proof (intro conjI)
  show "process_email_files_batch caps world file_paths =
     map (\<lambda>p. case process_email_file caps world p of
                 Inl e \<Rightarrow> error_record p e | Inr r \<Rightarrow> r) file_paths"
    by (simp add: process_email_files_batch_def handle_exceptions_map Let_def)
  show "process_archive_files_batch caps world file_paths =
     map (\<lambda>p. case process_archive_file caps world p of
                 Inl e \<Rightarrow> error_record p e | Inr r \<Rightarrow> r) file_paths"
    by (simp add: process_archive_files_batch_def handle_exceptions_map Let_def)
  show "length (process_documents_batch world file_paths) = length file_paths"
    by (simp add: process_documents_batch_def)
  have s: "path_suffix (u ''missing.eml'') = u ''.eml''" by (simp add: path_eval u_def)
  show "process_email_files_batch all_caps demo_world [u ''missing.eml''] =
     [\<lparr>raw_content = u ''Error processing missing.eml: Email file not found: missing.eml'',
       url = u ''missing.eml'', enhanced_processing = False,
       result_metadata = [u ''file_type'' \<mapsto> PStr (u ''.eml''),
                          u ''processing_method'' \<mapsto> PStr (u ''error''),
                          u ''error'' \<mapsto> PStr (u ''Email file not found: missing.eml'')]\<rparr>]"
    unfolding process_email_files_batch_def handle_exceptions_map Let_def
    by (simp add: missing_eml error_record_def s) (simp add: lower_def u_def)
  show "process_documents_batch demo_world [u ''terms.txt'', u ''notes.xyz''] =
     [Inr \<lparr>raw_content = u ''Net 30 days'', url = u ''terms.txt'', enhanced_processing = False,
           result_metadata = [u ''file_type'' \<mapsto> PStr (u ''txt''),
                              u ''processing_method'' \<mapsto> PStr (u ''gpt_researcher'')]\<rparr>,
      Inl (ValueError (u ''Unsupported file type: xyz''))]"
    by (simp add: process_documents_batch_def terms_txt_document notes_xyz_document)
qed

section \<open>Single files: the claims\<close>




























end
